theory Spec2Isabelle
  imports Main
begin

section \<open>Values of the JavaScript runtime\<close>

text \<open>
  Tool inputs and tool results have the TypeScript type \<open>unknown\<close> or
  \<open>Record<string, unknown>\<close>. They are modelled as JSON data; numbers are integers,
  since no function of the orchestration core computes with them. Values that are not JSON
  data (\<open>undefined\<close>, a \<open>BigInt\<close>, a cyclic object), on which \<open>JSON.stringify\<close>
  answers \<open>undefined\<close> or throws, are outside this type.
\<close>

datatype jsvalue =
    JNull
  | JBool bool
  | JNum int
  | JStr string
  | JArr "jsvalue list"
  | JObj "(string \<times> jsvalue) list"

text \<open>
  A thrown value is either an instance of \<open>Error\<close>, carrying its \<open>message\<close>, or
  any other value. Every \<open>throw\<close>, and every rejected promise that is awaited, is the
  left injection of the sum \<open>thrown + 'a\<close>.
\<close>

datatype thrown = JsError string | NonError jsvalue

text \<open>
  The JavaScript \<open>Map\<close>: an association list in insertion order without duplicate
  keys. \<open>set\<close> on a key that is present keeps the key's position, \<open>delete\<close> removes
  the key, and iteration follows the list.
\<close>

type_synonym ('k, 'v) jsmap = "('k \<times> 'v) list"

fun jsmap_get :: "('k, 'v) jsmap \<Rightarrow> 'k \<Rightarrow> 'v option" where
  "jsmap_get [] k = None"
| "jsmap_get ((k', v) # m) k = (if k' = k then Some v else jsmap_get m k)"

fun jsmap_set :: "('k, 'v) jsmap \<Rightarrow> 'k \<Rightarrow> 'v \<Rightarrow> ('k, 'v) jsmap" where
  "jsmap_set [] k v = [(k, v)]"
| "jsmap_set ((k', v') # m) k v = (if k' = k then (k, v) # m else (k', v') # jsmap_set m k v)"

fun jsmap_delete :: "('k, 'v) jsmap \<Rightarrow> 'k \<Rightarrow> ('k, 'v) jsmap" where
  "jsmap_delete [] k = []"
| "jsmap_delete ((k', v') # m) k = (if k' = k then m else (k', v') # jsmap_delete m k)"

section \<open>Shared types (\<open>src/shared/src/types/plugins.type.ts\<close>)\<close>

record attachment =
  att_type :: string
  att_url :: string
  att_filename :: string
  att_size :: "int option"

text \<open>
  \<open>Message\<close>. The \<open>timestamp\<close> is the number of milliseconds of the \<open>Date\<close>, or
  \<open>None\<close> when the field does not hold a \<open>Date\<close> instance.
\<close>

record message =
  msg_id :: string
  msg_platform :: string
  msg_channelId :: string
  msg_userId :: string
  msg_username :: string
  msg_content :: string
  msg_timestamp :: "int option"
  msg_attachments :: "attachment list option"
  msg_replyTo :: "string option"
  msg_subject :: "string option"
  msg_systemPrompt :: "string option"

record send_message_options =
  smo_channelId :: string
  smo_content :: string
  smo_replyTo :: "string option"
  smo_attachments :: "attachment list option"

record llm_image_part =
  img_data :: string
  img_mediaType :: string

record tool_use =
  tu_id :: string
  tu_name :: string
  tu_input :: jsvalue

datatype role = User | Assistant | System | ToolRole

record llm_message =
  lm_role :: role
  lm_content :: string
  lm_images :: "llm_image_part list option"
  lm_toolCallId :: "string option"
  lm_toolName :: "string option"
  lm_toolUses :: "tool_use list option"

text \<open>
  \<open>LLMResponse\<close>. The loop reads \<open>response.content ?? ''\<close> and
  \<open>response.toolUses?.length\<close>, so both fields may be missing.
\<close>

record llm_response =
  resp_content :: "string option"
  resp_usage :: "(int option \<times> int option) option"
  resp_finishReason :: "string option"
  resp_toolUses :: "tool_use list option"

record tool_parameter =
  tp_name :: string
  tp_type :: string
  tp_description :: string
  tp_required :: bool
  tp_enum :: "string list option"

record tool =
  tool_name :: string
  tool_description :: string
  tool_parameters :: "tool_parameter list"
  tool_requiresApproval :: bool

record tool_context =
  ctx_userId :: string
  ctx_channelId :: string
  ctx_platform :: string
  ctx_message :: message
  ctx_assistantId :: "string option"

text \<open>The caller's \<open>options\<close> (\<open>{ temperature?, maxTokens? }\<close>).\<close>

record gen_options =
  go_temperature :: "int option"
  go_maxTokens :: "int option"

text \<open>\<open>LLMGenerateOptions\<close>: the caller's options spread, with \<open>tools\<close>.\<close>

record llm_generate_options =
  lgo_temperature :: "int option"
  lgo_maxTokens :: "int option"
  lgo_tools :: "tool list option"

record model_info =
  mi_id :: string
  mi_name :: string

record conversation_tool_usage =
  cu_toolName :: string
  cu_input :: jsvalue
  cu_output :: jsvalue
  cu_error :: "string option"
  cu_durationMs :: int

text \<open>
  \<open>ConversationMessage\<close>, as written to the persisted transcript. \<open>created\<close> is the
  time in milliseconds; its rendering by \<open>toISOString\<close> is not modelled.
\<close>

record conversation_message =
  cm_id :: string
  cm_role :: role
  cm_content :: string
  cm_created :: int
  cm_toolUsage :: "conversation_tool_usage option"

record conversation_record =
  cr_id :: string
  cr_title :: string
  cr_messages :: "conversation_message list option"
  cr_connectorId :: "string option"
  cr_channelId :: "string option"

record assistant_record =
  ar_id :: string
  ar_name :: string
  ar_llmProvider :: string
  ar_llmModel :: string
  ar_systemPrompt :: "string option"
  ar_tools :: "string list option"

record plugin_record =
  pr_id :: string
  pr_assistant :: "string option"

section \<open>The outside world\<close>

text \<open>
  Every call that leaves the orchestration core is recorded, in order, as an event. What
  an external collaborator (a model backend, a tool handler, an approval hook, a
  connector, the clock) answers may depend on everything that happened before, so each of
  them is a function of the events so far. An \<open>EvGenerate\<close> event holds the provider
  id, the model, the messages and options of one awaited call of \<open>generate\<close>, and what
  the call answered. \<open>EvRequestApproval\<close> and \<open>EvHandler\<close> are the calls of an
  approval hook and of a tool handler of an instance id. Plugin objects are named by
  their identity, a number; \<open>EvLoad\<close> is the construction of an object for an instance
  id and a plugin type. The calls to the logger are not recorded.
\<close>

datatype event =
    EvGenerate string string "llm_message list" llm_generate_options "thrown + llm_response"
  | EvRequestApproval string tool jsvalue tool_context
  | EvHandler string string jsvalue tool_context
  | EvNow
  | EvDisconnect nat
  | EvShutdown nat
  | EvLoad string string nat
  | EvOnMessage nat
  | EvOnSlashCommand nat
  | EvConnect nat
  | EvSendMessage nat send_message_options
  | EvSendTyping nat string
  | EvSendError nat string string string
  | EvSetInterval nat
  | EvClearInterval nat
  | EvConversationUpdate string "conversation_message list"
  | EvConversationCreate string "conversation_message list" string string

section \<open>Plugin capabilities (\<open>src/server/src/types/plugin-system.ts\<close>)\<close>

record tool_with_handler = tool +
  handler :: "event list \<Rightarrow> jsvalue \<Rightarrow> tool_context \<Rightarrow> thrown + jsvalue"

record tools_capability =
  getTools :: "tool_with_handler list"
  requestApproval ::
    "(event list \<Rightarrow> tool_with_handler \<Rightarrow> jsvalue \<Rightarrow> tool_context \<Rightarrow> thrown + bool) option"

record llm =
  getAvailableModels :: "model_info list"
  generate ::
    "event list \<Rightarrow> string \<Rightarrow> llm_message list \<Rightarrow> llm_generate_options \<Rightarrow> thrown + llm_response"

text \<open>
  \<open>Connector\<close>. The optional methods are \<open>None\<close> when the connector does not define
  them; a method that returns a promise answers \<open>None\<close> when the promise resolves and
  \<open>Some e\<close> when it rejects with \<open>e\<close>.
\<close>

record connector =
  platform :: string
  connect :: "event list \<Rightarrow> thrown option"
  disconnect :: "event list \<Rightarrow> thrown option"
  isConnected :: "event list \<Rightarrow> bool"
  onSlashCommand :: bool
  sendMessage :: "(event list \<Rightarrow> send_message_options \<Rightarrow> thrown option) option"
  sendTyping :: "(event list \<Rightarrow> string \<Rightarrow> thrown option) option"
  sendError :: "(event list \<Rightarrow> string \<Rightarrow> string \<Rightarrow> string \<Rightarrow> thrown option) option"

text \<open>
  A plugin object. \<open>obj\<close> is the identity of the object; a capability is present when
  the object has the method (\<open>'getTools' in plugin\<close>).
\<close>

record plugin_metadata =
  pm_id :: string
  pm_name :: string
  pm_description :: string
  pm_version :: string

record plugin_base =
  obj :: nat
  metadata :: plugin_metadata
  shutdown :: "event list \<Rightarrow> thrown option"
  getConnector :: "connector option"
  getLLM :: "llm option"
  toolsCapability :: "tools_capability option"

record instance_entry =
  ie_id :: string
  ie_type :: string
  ie_name :: string
  ie_config :: jsvalue
  ie_enabled :: bool
  ie_plugin :: plugin_base

text \<open>The capability tests and \<open>toTool\<close> of \<open>src/server/src/utils/plugin.utils.ts\<close>.\<close>

definition hasConnector :: "plugin_base \<Rightarrow> bool" where
  "hasConnector p = (getConnector p \<noteq> None)"

definition hasTools :: "plugin_base \<Rightarrow> bool" where
  "hasTools p = (toolsCapability p \<noteq> None)"

definition hasLLM :: "plugin_base \<Rightarrow> bool" where
  "hasLLM p = (getLLM p \<noteq> None)"

definition toTool :: "tool_with_handler \<Rightarrow> tool" where
  "toTool t = tool.truncate t"

definition toTools :: "tool_with_handler list \<Rightarrow> tool list" where
  "toTools ts = map toTool ts"

section \<open>The state of the process\<close>

text \<open>
  \<open>arrays\<close> is the store of the message arrays, addressed by allocation number:
  \<open>generateWithTools\<close> copies its argument and pushes onto the copy, so which array a
  push lands in is part of the model. \<open>timers\<close> are the interval timers that are
  running. \<open>next_obj\<close> is the identity the next plugin object will get.
  \<open>connectorConversationCache\<close> is the module-level map of the connector handler.
\<close>

record world =
  events :: "event list"
  arrays :: "nat \<Rightarrow> llm_message list"
  next_array :: nat
  timers :: "nat list"
  next_timer :: nat
  next_obj :: nat
  connectorConversationCache :: "(string, llm_message list) jsmap"

definition emit :: "event \<Rightarrow> world \<Rightarrow> world" where
  "emit e w = w\<lparr>events := events w @ [e]\<rparr>"

definition new_array :: "llm_message list \<Rightarrow> world \<Rightarrow> nat \<times> world" where
  "new_array xs w =
     (next_array w, w\<lparr>arrays := (arrays w)(next_array w := xs), next_array := Suc (next_array w)\<rparr>)"

definition array_push :: "nat \<Rightarrow> llm_message \<Rightarrow> world \<Rightarrow> world" where
  "array_push a m w = w\<lparr>arrays := (arrays w)(a := arrays w a @ [m])\<rparr>"

text \<open>
  The parts of the runtime the core calls: \<open>JSON.stringify\<close> on a tool result,
  \<open>Date.now()\<close>, the rendering of a number inside a template string, \<open>String(v)\<close>
  on a thrown value, and \<open>new URL\<close>, which answers the \<open>filename\<close> query
  parameter and the path of a URL, or \<open>None\<close> when it throws. Each reading of the
  clock is an event, so that two readings in a row may differ.
\<close>

record runtime =
  stringify :: "jsvalue \<Rightarrow> string"
  now :: "event list \<Rightarrow> int"
  number_toString :: "int \<Rightarrow> string"
  value_toString :: "jsvalue \<Rightarrow> string"
  parse_url :: "string \<Rightarrow> (string option \<times> string) option"

definition date_now :: "runtime \<Rightarrow> world \<Rightarrow> int \<times> world" where
  "date_now rt w = (now rt (events w), emit EvNow w)"

section \<open>Tool executor (\<open>src/server/src/services/tool-executor.service.ts\<close>)\<close>

definition MAX_TOOL_LOOP_ITERATIONS :: nat where
  "MAX_TOOL_LOOP_ITERATIONS = 10"

definition call_handler ::
  "string \<Rightarrow> tool_with_handler \<Rightarrow> tool_use \<Rightarrow> tool_context \<Rightarrow> world \<Rightarrow> (thrown + jsvalue) \<times> world"
where
  "call_handler instanceId t toolUse context w =
     (handler t (events w) (tu_input toolUse) context,
      emit (EvHandler instanceId (tool_name t) (tu_input toolUse) context) w)"

definition executeTool ::
  "string \<Rightarrow> tool_use \<Rightarrow> tool_context \<Rightarrow> (string, instance_entry) jsmap \<Rightarrow> world
     \<Rightarrow> (thrown + jsvalue) \<times> world"
where
  "executeTool instanceId toolUse context plugins w =
     (case jsmap_get plugins instanceId of
        None \<Rightarrow> (Inl (JsError (''Plugin with tools not found: '' @ instanceId)), w)
      | Some entry \<Rightarrow>
          (case toolsCapability (ie_plugin entry) of
             None \<Rightarrow> (Inl (JsError (''Plugin with tools not found: '' @ instanceId)), w)
           | Some cap \<Rightarrow>
               (case find (\<lambda>t. tool_name t = tu_name toolUse) (getTools cap) of
                  None \<Rightarrow> (Inl (JsError (''Tool not found: '' @ tu_name toolUse)), w)
                | Some t \<Rightarrow>
                    (case requestApproval cap of
                       None \<Rightarrow> call_handler instanceId t toolUse context w
                     | Some hook \<Rightarrow>
                         (let w1 = emit (EvRequestApproval instanceId (toTool t) (tu_input toolUse) context) w
                          in case hook (events w) t (tu_input toolUse) context of
                               Inl e \<Rightarrow> (Inl e, w1)
                             | Inr approved \<Rightarrow>
                                 if \<not> approved
                                 then (Inr (JObj [(''error'', JStr ''Action was not approved'')]), w1)
                                 else call_handler instanceId t toolUse context w1)))))"


record generate_with_tools_result =
  response :: llm_response
  toolUsages :: "conversation_tool_usage list"

text \<open>
  The body of \<open>if (!instanceId) { ... }\<close>: the result and the error for a tool name
  that the reverse index does not resolve.
\<close>

definition unknown_tool :: "tool_use \<Rightarrow> jsvalue \<times> string option" where
  "unknown_tool toolUse =
     (JObj [(''error'', JStr (''Unknown tool: '' @ tu_name toolUse))],
      Some (''Unknown tool: '' @ tu_name toolUse))"

text \<open>
  The \<open>catch\<close> block around \<open>executeTool\<close>. The parsing of the error message there
  only feeds the logger and is left out, like every call to the logger.
\<close>

definition caught_tool_error :: "tool_use \<Rightarrow> thrown \<Rightarrow> jsvalue \<times> string option" where
  "caught_tool_error toolUse err =
     (let error = (case err of JsError m \<Rightarrow> m | NonError v \<Rightarrow> ''Tool execution failed'')
      in (JObj [(''success'', JBool False),
                (''error'', JStr error),
                (''message'', JStr (''The tool '' @ [CHR 0x22] @ tu_name toolUse @ [CHR 0x22] @
                   '' encountered a technical error. Please inform the user that there was a problem and suggest they try again later.''))],
          Some error))"

text \<open>\<open>typeof result === 'string' ? result : JSON.stringify(result)\<close>\<close>

definition result_content :: "runtime \<Rightarrow> jsvalue \<Rightarrow> string" where
  "result_content rt result = (case result of JStr s \<Rightarrow> s | _ \<Rightarrow> stringify rt result)"

definition tool_message :: "runtime \<Rightarrow> tool_use \<Rightarrow> jsvalue \<Rightarrow> llm_message" where
  "tool_message rt toolUse result =
     \<lparr>lm_role = ToolRole, lm_content = result_content rt result, lm_images = None,
      lm_toolCallId = Some (tu_id toolUse), lm_toolName = Some (tu_name toolUse),
      lm_toolUses = None\<rparr>"

text \<open>
  The \<open>if (!instanceId) ... else try ... catch\<close> statement: the result and the error
  of one tool use. An instance id that is the empty string is falsy, and is treated like a
  missing one.
\<close>

definition tool_outcome ::
  "tool_use \<Rightarrow> (string, string) jsmap \<Rightarrow> tool_context \<Rightarrow> (string, instance_entry) jsmap \<Rightarrow> world
     \<Rightarrow> (jsvalue \<times> string option) \<times> world"
where
  "tool_outcome toolUse nameToInstanceId actionContext plugins w =
     (case jsmap_get nameToInstanceId (tu_name toolUse) of
        None \<Rightarrow> (unknown_tool toolUse, w)
      | Some instanceId \<Rightarrow>
          if instanceId = [] then (unknown_tool toolUse, w)
          else (case executeTool instanceId toolUse actionContext plugins w of
                  (Inr r, w') \<Rightarrow> ((r, None), w')
                | (Inl err, w') \<Rightarrow> (caught_tool_error toolUse err, w')))"

text \<open>One round of the inner \<open>for (const toolUse of response.toolUses)\<close> loop.\<close>

definition run_tool_use ::
  "runtime \<Rightarrow> tool_use \<Rightarrow> (string, string) jsmap \<Rightarrow> tool_context \<Rightarrow> (string, instance_entry) jsmap
     \<Rightarrow> nat \<Rightarrow> conversation_tool_usage list \<Rightarrow> world \<Rightarrow> conversation_tool_usage list \<times> world"
where
  "run_tool_use rt toolUse nameToInstanceId actionContext plugins currentMessages usages w =
     (let (startTime, w1) = date_now rt w;
          ((result, error), w2) = tool_outcome toolUse nameToInstanceId actionContext plugins w1;
          (endTime, w3) = date_now rt w2;
          durationMs = endTime - startTime
      in (usages @
            [\<lparr>cu_toolName = tu_name toolUse, cu_input = tu_input toolUse, cu_output = result,
              cu_error = error, cu_durationMs = durationMs\<rparr>],
          array_push currentMessages (tool_message rt toolUse result) w3))"

fun run_tool_uses ::
  "runtime \<Rightarrow> tool_use list \<Rightarrow> (string, string) jsmap \<Rightarrow> tool_context \<Rightarrow> (string, instance_entry) jsmap
     \<Rightarrow> nat \<Rightarrow> conversation_tool_usage list \<Rightarrow> world \<Rightarrow> conversation_tool_usage list \<times> world"
where
  "run_tool_uses rt [] nameToInstanceId actionContext plugins currentMessages usages w = (usages, w)"
| "run_tool_uses rt (toolUse # rest) nameToInstanceId actionContext plugins currentMessages usages w =
     (let (usages', w') =
            run_tool_use rt toolUse nameToInstanceId actionContext plugins currentMessages usages w
      in run_tool_uses rt rest nameToInstanceId actionContext plugins currentMessages usages' w')"

text \<open>\<open>!response.toolUses?.length\<close>\<close>

definition no_tool_uses :: "llm_response \<Rightarrow> bool" where
  "no_tool_uses r = (case resp_toolUses r of None \<Rightarrow> True | Some us \<Rightarrow> us = [])"

text \<open>The tool uses a response carries, as the \<open>for ... of\<close> loop walks them.\<close>

definition uses_of :: "llm_response \<Rightarrow> tool_use list" where
  "uses_of r = (case resp_toolUses r of None \<Rightarrow> [] | Some us \<Rightarrow> us)"

definition assistantTurn :: "llm_response \<Rightarrow> llm_message" where
  "assistantTurn r =
     \<lparr>lm_role = Assistant, lm_content = (case resp_content r of None \<Rightarrow> [] | Some c \<Rightarrow> c),
      lm_images = None, lm_toolCallId = None, lm_toolName = None, lm_toolUses = resp_toolUses r\<rparr>"

text \<open>\<open>await llm.generate(model, currentMessages, opts)\<close>, with the call recorded.\<close>

definition call_generate ::
  "string \<Rightarrow> llm \<Rightarrow> string \<Rightarrow> nat \<Rightarrow> llm_generate_options \<Rightarrow> world \<Rightarrow> (thrown + llm_response) \<times> world"
where
  "call_generate providerId l model currentMessages opts w =
     (let outcome = generate l (events w) model (arrays w currentMessages) opts
      in (outcome, emit (EvGenerate providerId model (arrays w currentMessages) opts outcome) w))"

definition with_tools :: "gen_options option \<Rightarrow> tool list option \<Rightarrow> llm_generate_options" where
  "with_tools options ts =
     \<lparr>lgo_temperature = (case options of None \<Rightarrow> None | Some opt \<Rightarrow> go_temperature opt),
      lgo_maxTokens = (case options of None \<Rightarrow> None | Some opt \<Rightarrow> go_maxTokens opt),
      lgo_tools = ts\<rparr>"

text \<open>
  The loop \<open>for (let iter = 0; iter < MAX_TOOL_LOOP_ITERATIONS; iter++)\<close> and the final
  call after it; the first argument is the number of iterations that remain.
\<close>

fun tool_loop ::
  "nat \<Rightarrow> runtime \<Rightarrow> string \<Rightarrow> llm \<Rightarrow> string \<Rightarrow> tool list \<Rightarrow> (string, string) jsmap \<Rightarrow> tool_context
     \<Rightarrow> (string, instance_entry) jsmap \<Rightarrow> gen_options option \<Rightarrow> nat \<Rightarrow> conversation_tool_usage list
     \<Rightarrow> world \<Rightarrow> (thrown + generate_with_tools_result) \<times> world"
where
  "tool_loop 0 rt providerId l model tools nameToInstanceId actionContext plugins options
       currentMessages usages w =
     (case call_generate providerId l model currentMessages (with_tools options None) w of
        (Inl e, w1) \<Rightarrow> (Inl e, w1)
      | (Inr finalResponse, w1) \<Rightarrow> (Inr \<lparr>response = finalResponse, toolUsages = usages\<rparr>, w1))"
| "tool_loop (Suc n) rt providerId l model tools nameToInstanceId actionContext plugins options
       currentMessages usages w =
     (case call_generate providerId l model currentMessages
             (with_tools options (if length tools > 0 then Some tools else None)) w of
        (Inl e, w1) \<Rightarrow> (Inl e, w1)
      | (Inr r, w1) \<Rightarrow>
          if no_tool_uses r then (Inr \<lparr>response = r, toolUsages = usages\<rparr>, w1)
          else
            (let (currentMessages', w2) =
                   new_array (arrays w1 currentMessages @ [assistantTurn r]) w1;
                 (usages', w3) =
                   run_tool_uses rt (uses_of r) nameToInstanceId actionContext plugins
                     currentMessages' usages w2
             in tool_loop n rt providerId l model tools nameToInstanceId actionContext plugins options
                  currentMessages' usages' w3))"

text \<open>
  \<open>generateWithTools\<close>. \<open>messages\<close> is the address of the caller's array;
  \<open>[...messages]\<close> allocates the copy the loop works on.
\<close>

definition generateWithTools ::
  "runtime \<Rightarrow> string \<Rightarrow> string \<Rightarrow> nat \<Rightarrow> tool list \<Rightarrow> (string, string) jsmap \<Rightarrow> tool_context
     \<Rightarrow> (string, instance_entry) jsmap \<Rightarrow> gen_options option \<Rightarrow> world
     \<Rightarrow> (thrown + generate_with_tools_result) \<times> world"
where
  "generateWithTools rt providerId model messages tools nameToInstanceId actionContext plugins options w =
     (case jsmap_get plugins providerId of
        None \<Rightarrow> (Inl (JsError ''LLM provider not found or disabled''), w)
      | Some providerEntry \<Rightarrow>
          if \<not> ie_enabled providerEntry then (Inl (JsError ''LLM provider not found or disabled''), w)
          else
            (case getLLM (ie_plugin providerEntry) of
               None \<Rightarrow> (Inl (JsError ''LLM provider not found or disabled''), w)
             | Some l \<Rightarrow>
                 (let (currentMessages, w1) = new_array (arrays w messages) w
                  in tool_loop MAX_TOOL_LOOP_ITERATIONS rt providerId l model tools nameToInstanceId
                       actionContext plugins options currentMessages [] w1)))"

section \<open>Plugin manager (\<open>serverPluginManager\<close>)\<close>





record tools_resolution =
  tr_tools :: "tool list"
  tr_nameToInstanceId :: "(string, string) jsmap"

text \<open>One round of \<open>for (const id of actionIds)\<close> in \<open>getToolsForActionIds\<close>.\<close>

definition add_tools_of ::
  "(string, instance_entry) jsmap \<Rightarrow> string \<Rightarrow> tools_resolution \<Rightarrow> tools_resolution" where
  "add_tools_of plugins iid acc =
     (case jsmap_get plugins iid of
        None \<Rightarrow> acc
      | Some entry \<Rightarrow>
          if \<not> ie_enabled entry then acc
          else
            (case toolsCapability (ie_plugin entry) of
               None \<Rightarrow> acc
             | Some cap \<Rightarrow>
                 \<lparr>tr_tools = tr_tools acc @ toTools (getTools cap),
                  tr_nameToInstanceId =
                    fold (\<lambda>t m. jsmap_set m (tool_name t) iid) (getTools cap)
                      (tr_nameToInstanceId acc)\<rparr>))"

definition getToolsForActionIds ::
  "(string, instance_entry) jsmap \<Rightarrow> string list \<Rightarrow> tools_resolution" where
  "getToolsForActionIds plugins actionIds =
     fold (add_tools_of plugins) actionIds \<lparr>tr_tools = [], tr_nameToInstanceId = []\<rparr>"

definition getAllEnabledPluginWithToolIds :: "(string, instance_entry) jsmap \<Rightarrow> string list" where
  "getAllEnabledPluginWithToolIds plugins =
     map fst (filter (\<lambda>(iid, entry). ie_enabled entry \<and> hasTools (ie_plugin entry)) plugins)"

text \<open>
  The teardown of an entry, as \<open>addPlugin\<close> and \<open>unloadPlugin\<close> both write it:
  disconnect the connector if it is connected, then await \<open>shutdown()\<close>. The answer is
  the exception that stopped it, if any.
\<close>

definition teardown :: "instance_entry \<Rightarrow> world \<Rightarrow> thrown option \<times> world" where
  "teardown existing w =
     (let (failed, w1) =
            (case getConnector (ie_plugin existing) of
               None \<Rightarrow> (None, w)
             | Some c \<Rightarrow>
                 if isConnected c (events w)
                 then (disconnect c (events w), emit (EvDisconnect (obj (ie_plugin existing))) w)
                 else (None, w))
      in case failed of
           Some e \<Rightarrow> (Some e, w1)
         | None \<Rightarrow> (shutdown (ie_plugin existing) (events w1),
                     emit (EvShutdown (obj (ie_plugin existing))) w1))"




definition unloadPlugin ::
  "string \<Rightarrow> (string, instance_entry) jsmap \<Rightarrow> world
     \<Rightarrow> thrown option \<times> (string, instance_entry) jsmap \<times> world"
where
  "unloadPlugin instanceId plugins w =
     (case jsmap_get plugins instanceId of
        None \<Rightarrow> (None, plugins, w)
      | Some entry \<Rightarrow>
          (case teardown entry w of
             (Some e, w') \<Rightarrow> (Some e, plugins, w')
           | (None, w') \<Rightarrow> (None, jsmap_delete plugins instanceId, w')))"

definition toggleEnabled ::
  "string \<Rightarrow> (string, instance_entry) jsmap \<Rightarrow> thrown + (string, instance_entry) jsmap" where
  "toggleEnabled instanceId plugins =
     (case jsmap_get plugins instanceId of
        None \<Rightarrow> Inl (JsError ''Instance not found'')
      | Some entry \<Rightarrow> Inr (jsmap_set plugins instanceId (entry\<lparr>ie_enabled := \<not> ie_enabled entry\<rparr>)))"

text \<open>
  The \<open>options\<close> of \<open>generateWithProvider\<close>. A missing \<open>options\<close> object and an
  empty one are not told apart by the function.
\<close>

record provider_options =
  po_temperature :: "int option"
  po_maxTokens :: "int option"
  po_tools :: "tool list option"
  po_toolNameToInstanceId :: "(string, string) jsmap option"
  po_actionContext :: "tool_context option"

text \<open>\<open>!tools?.length\<close>\<close>

definition no_length :: "'a list option \<Rightarrow> bool" where
  "no_length xs = (case xs of None \<Rightarrow> True | Some ys \<Rightarrow> ys = [])"

text \<open>The context that the in-app chat path builds; \<open>t\<close> is the time of \<open>new Date()\<close>.\<close>

definition web_context :: "int \<Rightarrow> tool_context" where
  "web_context t =
     \<lparr>ctx_userId = ''web'', ctx_channelId = ''web'', ctx_platform = ''web'',
      ctx_message =
        \<lparr>msg_id = ''web'', msg_platform = ''web'', msg_channelId = ''web'', msg_userId = ''web'',
         msg_username = ''user'', msg_content = [], msg_timestamp = Some t, msg_attachments = None,
         msg_replyTo = None, msg_subject = None, msg_systemPrompt = None\<rparr>,
      ctx_assistantId = None\<rparr>"

text \<open>
  \<open>generateWithProvider\<close>. The options handed on to \<open>generateWithTools\<close> and to the
  plain call of \<open>generate\<close> are the caller's own, with the caller's \<open>tools\<close>.
\<close>

definition generateWithProvider ::
  "runtime \<Rightarrow> (string, instance_entry) jsmap \<Rightarrow> string \<Rightarrow> string \<Rightarrow> nat \<Rightarrow> provider_options option
     \<Rightarrow> world \<Rightarrow> (thrown + llm_response) \<times> world"
where
  "generateWithProvider rt plugins instanceId model messages options w =
     (case jsmap_get plugins instanceId of
        None \<Rightarrow> (Inl (JsError ''LLM provider not found''), w)
      | Some entry \<Rightarrow>
          (case getLLM (ie_plugin entry) of
             None \<Rightarrow> (Inl (JsError ''LLM provider not found''), w)
           | Some l \<Rightarrow>
               if \<not> ie_enabled entry then (Inl (JsError ''LLM provider is disabled''), w)
               else
                 (let tools0 = (case options of None \<Rightarrow> None | Some opt \<Rightarrow> po_tools opt);
                      index0 = (case options of None \<Rightarrow> None | Some opt \<Rightarrow> po_toolNameToInstanceId opt);
                      context0 = (case options of None \<Rightarrow> None | Some opt \<Rightarrow> po_actionContext opt);
                      genOptions =
                        (case options of
                           None \<Rightarrow> None
                         | Some opt \<Rightarrow>
                             Some \<lparr>go_temperature = po_temperature opt, go_maxTokens = po_maxTokens opt\<rparr>);
                      pluginIds = getAllEnabledPluginWithToolIds plugins;
                      built = getToolsForActionIds plugins pluginIds;
                      (tools1, index1) =
                        (if context0 \<noteq> None \<and> (no_length tools0 \<or> index0 = None) \<and> pluginIds \<noteq> []
                         then (Some (tr_tools built), Some (tr_nameToInstanceId built))
                         else (tools0, index0));
                      (tools2, index2, context2, w2) =
                        (if context0 = None \<and> (no_length tools1 \<or> index1 = None) \<and> tr_tools built \<noteq> []
                         then (let (t, w') = date_now rt w
                               in (Some ((case tools1 of None \<Rightarrow> [] | Some ts \<Rightarrow> ts) @ tr_tools built),
                                   Some (fold (\<lambda>(name, iid) m. jsmap_set m name iid)
                                           (tr_nameToInstanceId built)
                                           (case index1 of None \<Rightarrow> [] | Some m \<Rightarrow> m)),
                                   Some (web_context t), w'))
                         else (tools1, index1, context0, w))
                  in case (tools2, index2, context2) of
                       (Some ts, Some index, Some context) \<Rightarrow>
                         if ts \<noteq> []
                         then (case generateWithTools rt instanceId model messages ts index context
                                      plugins genOptions w2 of
                                 (Inl e, w') \<Rightarrow> (Inl e, w')
                               | (Inr result, w') \<Rightarrow> (Inr (response result), w'))
                         else call_generate instanceId l model messages (with_tools genOptions tools0) w2
                     | _ \<Rightarrow> call_generate instanceId l model messages (with_tools genOptions tools0) w2)))"

section \<open>Connector handler (\<open>handleConnectorMessage\<close>)\<close>

text \<open>
  The connector handler service is the second part of the file
  \<open>src/server/src/services/scheduler.service.ts\<close> of the source tree.
  The repositories are external collaborators. \<open>getOne\<close> answers \<open>null\<close> and
  \<open>findAll\<close> the empty list when the database call fails, so the reads never throw.
\<close>

record database =
  pluginRepository_getOne :: "event list \<Rightarrow> string \<Rightarrow> plugin_record option"
  assistantRepository_getOne :: "event list \<Rightarrow> string \<Rightarrow> assistant_record option"
  conversationRepository_findAll :: "event list \<Rightarrow> conversation_record list"

definition MAX_CACHED_MESSAGES :: nat where
  "MAX_CACHED_MESSAGES = 30"

text \<open>\<open>xs.slice(-n)\<close> for a positive \<open>n\<close>: the last \<open>n\<close> elements.\<close>

definition slice_last :: "nat \<Rightarrow> 'a list \<Rightarrow> 'a list" where
  "slice_last n xs = drop (length xs - n) xs"

text \<open>\<open>if (xs.length > MAX_CACHED_MESSAGES) xs = xs.slice(-MAX_CACHED_MESSAGES)\<close>\<close>

definition cap_cached :: "llm_message list \<Rightarrow> llm_message list" where
  "cap_cached xs = (if length xs > MAX_CACHED_MESSAGES then slice_last MAX_CACHED_MESSAGES xs else xs)"

text \<open>
  \<open>String.prototype.trim\<close>, for the ASCII white space and line terminators; strings are
  byte strings here, and the white space beyond ASCII is not modelled.
\<close>

definition is_space :: "char \<Rightarrow> bool" where
  "is_space c = (c \<in> {CHR 0x20, CHR 0x09, CHR 0x0A, CHR 0x0B, CHR 0x0C, CHR 0x0D})"

definition trim :: "string \<Rightarrow> string" where
  "trim s = rev (dropWhile is_space (rev (dropWhile is_space s)))"

fun join :: "string \<Rightarrow> string list \<Rightarrow> string" where
  "join sep [] = []"
| "join sep [x] = x"
| "join sep (x # y # ys) = x @ sep @ join sep (y # ys)"

definition startsWith :: "string \<Rightarrow> string \<Rightarrow> bool" where
  "startsWith s prefix = (take (length prefix) s = prefix)"

text \<open>The content of a response where the code reads \<open>response.content\<close> as a string.\<close>

definition content_of :: "llm_response \<Rightarrow> string" where
  "content_of r = (case resp_content r of None \<Rightarrow> [] | Some c \<Rightarrow> c)"

definition plain_message :: "role \<Rightarrow> string \<Rightarrow> llm_message" where
  "plain_message r c =
     \<lparr>lm_role = r, lm_content = c, lm_images = None, lm_toolCallId = None, lm_toolName = None,
      lm_toolUses = None\<rparr>"

text \<open>The user content: the message text, with the URLs of the image attachments.\<close>

definition user_content :: "message \<Rightarrow> string" where
  "user_content message =
     (let incomingImageAttachments =
            (case msg_attachments message of
               None \<Rightarrow> []
             | Some as \<Rightarrow> filter (\<lambda>a. att_type a = ''image'' \<or> startsWith (att_type a) ''image/'') as)
      in if incomingImageAttachments = [] then msg_content message
         else
           (let urls = join [CHR 0x0A] (map att_url incomingImageAttachments)
            in if trim (msg_content message) \<noteq> []
               then msg_content message @ [CHR 0x0A, CHR 0x0A] @
                    ''[IMAGE URL(s) '' @ [CHR 0xE2, CHR 0x80, CHR 0x94] @
                    '' You MUST pass one of these exact URLs as imageUrl when calling img2img or img2txt. Do NOT use example.com or any other placeholder.]'' @
                    [CHR 0x0A] @ urls
               else ''[User sent image(s). You MUST pass one of these exact URLs as imageUrl when calling img2img or img2txt. Do NOT use example.com or any placeholder.]'' @
                    [CHR 0x0A] @ urls))"

definition cacheKey :: "instance_entry \<Rightarrow> message \<Rightarrow> string" where
  "cacheKey entry message = ie_id entry @ '':'' @ msg_channelId message"

text \<open>
  The typing indicator: one \<open>sendTyping\<close> at once, whose rejection is swallowed, and an
  interval timer. The answer is the handle \<open>typingInterval\<close>. The timer runs for as
  long as its handle is in \<open>timers\<close>; its ticks, which come later, are not events of
  the handler.
\<close>

definition start_typing :: "connector \<Rightarrow> nat \<Rightarrow> string \<Rightarrow> world \<Rightarrow> nat option \<times> world" where
  "start_typing c ob channel w =
     (case sendTyping c of
        None \<Rightarrow> (None, w)
      | Some send \<Rightarrow>
          (let w1 = emit (EvSendTyping ob channel) w;
               w2 = emit (EvSetInterval (next_timer w1)) w1
           in (Some (next_timer w1),
               w2\<lparr>timers := timers w2 @ [next_timer w1], next_timer := Suc (next_timer w1)\<rparr>)))"

definition stopTyping :: "nat option \<Rightarrow> world \<Rightarrow> world" where
  "stopTyping typingInterval w =
     (case typingInterval of
        None \<Rightarrow> w
      | Some t \<Rightarrow> (emit (EvClearInterval t) w)\<lparr>timers := removeAll t (timers w)\<rparr>)"

text \<open>The file name of an image URL, as the handler infers it.\<close>

definition image_filename :: "runtime \<Rightarrow> string \<Rightarrow> string" where
  "image_filename rt url =
     (case parse_url rt url of
        None \<Rightarrow> ''image.png''
      | Some (filenameParam, pathname) \<Rightarrow>
          (case filenameParam of
             Some f \<Rightarrow>
               if f \<noteq> [] then f
               else (let pathPart = rev (takeWhile (\<lambda>c. c \<noteq> CHR ''/'') (rev pathname))
                     in if pathPart \<noteq> [] \<and> CHR ''.'' \<in> set pathPart then pathPart else ''image.png'')
           | None \<Rightarrow>
               (let pathPart = rev (takeWhile (\<lambda>c. c \<noteq> CHR ''/'') (rev pathname))
                in if pathPart \<noteq> [] \<and> CHR ''.'' \<in> set pathPart then pathPart else ''image.png'')))"

definition usage_images :: "runtime \<Rightarrow> conversation_tool_usage \<Rightarrow> attachment list" where
  "usage_images rt usage =
     (case cu_output usage of
        JObj kvs \<Rightarrow>
          (case map_of kvs ''imageUrls'' of
             Some (JArr urls) \<Rightarrow>
               concat (map (\<lambda>url. case url of
                                     JStr u \<Rightarrow> [\<lparr>att_type = ''image'', att_url = u,
                                                 att_filename = image_filename rt u, att_size = None\<rparr>]
                                   | _ \<Rightarrow> []) urls)
           | _ \<Rightarrow> [])
      | _ \<Rightarrow> [])"

text \<open>
  The transcript entries of the tool usages; each \<open>new Date()\<close> reads the clock.
\<close>

fun tool_entries ::
  "runtime \<Rightarrow> string \<Rightarrow> nat \<Rightarrow> conversation_tool_usage list \<Rightarrow> world
     \<Rightarrow> conversation_message list \<times> world"
where
  "tool_entries rt mid idx [] w = ([], w)"
| "tool_entries rt mid idx (usage # rest) w =
     (let (t, w1) = date_now rt w;
          m = \<lparr>cm_id = ''tool-'' @ mid @ ''-'' @ number_toString rt (int idx), cm_role = ToolRole,
               cm_content = (case cu_error usage of
                               Some e \<Rightarrow> e
                             | None \<Rightarrow> result_content rt (cu_output usage)),
               cm_created = t, cm_toolUsage = Some usage\<rparr>;
          (ms, w2) = tool_entries rt mid (Suc idx) rest w1
      in (m # ms, w2))"

text \<open>
  The \<open>try\<close> block that persists the exchange. What \<open>update\<close> and \<open>create\<close> answer
  is not looked at: an exception there is caught and logged.
\<close>

definition persist_exchange ::
  "runtime \<Rightarrow> database \<Rightarrow> instance_entry \<Rightarrow> connector \<Rightarrow> message \<Rightarrow> llm_response
     \<Rightarrow> conversation_tool_usage list \<Rightarrow> world \<Rightarrow> world"
where
  "persist_exchange rt db entry c message r usages w =
     (let conversations = conversationRepository_findAll db (events w);
          existing = find (\<lambda>conv. cr_connectorId conv = Some (ie_id entry)
                              \<and> cr_channelId conv = Some (msg_channelId message)) conversations;
          (created, w1) = (case msg_timestamp message of
                             Some t \<Rightarrow> (t, w)
                           | None \<Rightarrow> date_now rt w);
          userEntry = \<lparr>cm_id = msg_id message, cm_role = User, cm_content = msg_content message,
                       cm_created = created, cm_toolUsage = None\<rparr>;
          (toolMessages, w2) = tool_entries rt (msg_id message) 0 usages w1;
          (t, w3) = date_now rt w2;
          assistantEntry = \<lparr>cm_id = ''assistant-'' @ msg_id message, cm_role = Assistant,
                            cm_content = content_of r, cm_created = t, cm_toolUsage = None\<rparr>;
          newMessages = userEntry # toolMessages @ [assistantEntry]
      in case existing of
           Some conv \<Rightarrow>
             emit (EvConversationUpdate (cr_id conv)
                     ((case cr_messages conv of None \<Rightarrow> [] | Some ms \<Rightarrow> ms) @ newMessages)) w3
         | None \<Rightarrow>
             emit (EvConversationCreate
                     (case msg_subject message of
                        Some subject \<Rightarrow> subject
                      | None \<Rightarrow> platform c @ '' ('' @ msg_channelId message @ '')'')
                     newMessages (ie_id entry) (msg_channelId message)) w3)"

text \<open>
  The reply after a failed generation: \<open>sendError\<close> if the connector has it, else
  \<open>sendMessage\<close>; a rejection of either is caught and logged.
\<close>

definition send_failure :: "runtime \<Rightarrow> connector \<Rightarrow> nat \<Rightarrow> message \<Rightarrow> thrown \<Rightarrow> world \<Rightarrow> world" where
  "send_failure rt c ob message err w =
     (let errorMessage = (case err of JsError m \<Rightarrow> m | NonError v \<Rightarrow> value_toString rt v)
      in case sendError c of
           Some send \<Rightarrow> emit (EvSendError ob (msg_channelId message) errorMessage ''llm_error'') w
         | None \<Rightarrow>
             (case sendMessage c of
                Some send \<Rightarrow>
                  emit (EvSendMessage ob
                          \<lparr>smo_channelId = msg_channelId message, smo_content = ''Error: '' @ errorMessage,
                           smo_replyTo = Some (msg_id message), smo_attachments = None\<rparr>) w
              | None \<Rightarrow> w))"

text \<open>
  The assistant bound to the connector: the lookup of the connector's record and of its
  assistant, and the test \<open>!assistant?.llmProvider || !assistant?.llmModel\<close>.
\<close>

definition bound_assistant :: "database \<Rightarrow> instance_entry \<Rightarrow> world \<Rightarrow> assistant_record option" where
  "bound_assistant db entry w =
     (let connectorRecord = pluginRepository_getOne db (events w) (ie_id entry);
          assistantId = (case connectorRecord of None \<Rightarrow> None | Some rec \<Rightarrow> pr_assistant rec);
          assistant = (case assistantId of
                         None \<Rightarrow> None
                       | Some a \<Rightarrow> if a = [] then None
                                   else assistantRepository_getOne db (events w) a)
      in case assistant of
           None \<Rightarrow> None
         | Some a \<Rightarrow> if ar_llmProvider a = [] \<or> ar_llmModel a = [] then None else Some a)"

text \<open>
  The handler after a successful generation: the reply, the update of the cache, and the
  persisted transcript. Only the \<open>sendMessage\<close> of the reply is awaited without a
  \<open>catch\<close>; when it rejects, the handler rejects before the cache is touched.
\<close>

definition finish_exchange ::
  "runtime \<Rightarrow> database \<Rightarrow> instance_entry \<Rightarrow> connector \<Rightarrow> message \<Rightarrow> llm_message
     \<Rightarrow> generate_with_tools_result \<Rightarrow> world \<Rightarrow> thrown option \<times> world"
where
  "finish_exchange rt db entry c message newUserMessage result w3 =
     (let imageAttachments = concat (map (usage_images rt) (toolUsages result));
          reply = \<lparr>smo_channelId = msg_channelId message,
                   smo_content = content_of (response result),
                   smo_replyTo = Some (msg_id message),
                   smo_attachments = (if imageAttachments \<noteq> [] then Some imageAttachments else None)\<rparr>;
          (failed, w4) =
            (case sendMessage c of
               None \<Rightarrow> (None, w3)
             | Some send \<Rightarrow>
                 (send (events w3) reply, emit (EvSendMessage (obj (ie_plugin entry)) reply) w3))
      in case failed of
           Some e \<Rightarrow> (Some e, w4)
         | None \<Rightarrow>
             (let nextCached =
                    cap_cached
                      ((case jsmap_get (connectorConversationCache w4) (cacheKey entry message) of
                          None \<Rightarrow> [] | Some xs \<Rightarrow> xs)
                       @ [newUserMessage, plain_message Assistant (content_of (response result))]);
                  w5 = w4\<lparr>connectorConversationCache :=
                            jsmap_set (connectorConversationCache w4) (cacheKey entry message)
                              nextCached\<rparr>
              in (None, persist_exchange rt db entry c message (response result)
                          (toolUsages result) w5)))"

text \<open>
  The handler once the assistant is known: tool resolution, the typing indicator, the
  messages, the generation, and the two ways out of it.
\<close>

definition answer_message ::
  "runtime \<Rightarrow> database \<Rightarrow> instance_entry \<Rightarrow> connector \<Rightarrow> assistant_record \<Rightarrow> message
     \<Rightarrow> (string, instance_entry) jsmap \<Rightarrow> (string list \<Rightarrow> tools_resolution) \<Rightarrow> world
     \<Rightarrow> thrown option \<times> world"
where
  "answer_message rt db entry c a message plugins getTools_for w =
     (let toolIds = (case ar_tools a of None \<Rightarrow> [] | Some ts \<Rightarrow> ts);
          resolved = getTools_for toolIds;
          (typingInterval, w1) = start_typing c (obj (ie_plugin entry)) (msg_channelId message) w;
          systemContent = (case ar_systemPrompt a of None \<Rightarrow> [] | Some sp \<Rightarrow> trim sp);
          cached = cap_cached
                     (case jsmap_get (connectorConversationCache w1) (cacheKey entry message) of
                        None \<Rightarrow> [] | Some xs \<Rightarrow> xs);
          newUserMessage = plain_message User (user_content message);
          (messages, w2) =
            new_array (plain_message System systemContent # cached @ [newUserMessage]) w1;
          actionContext =
            \<lparr>ctx_userId = msg_userId message, ctx_channelId = msg_channelId message,
             ctx_platform = msg_platform message, ctx_message = message,
             ctx_assistantId = Some (ar_id a)\<rparr>
      in case generateWithTools rt (ar_llmProvider a) (ar_llmModel a) messages
                (tr_tools resolved) (tr_nameToInstanceId resolved) actionContext plugins None w2 of
           (Inl err, w3) \<Rightarrow>
             (None, send_failure rt c (obj (ie_plugin entry)) message err (stopTyping typingInterval w3))
         | (Inr result, w3) \<Rightarrow> finish_exchange rt db entry c message newUserMessage result w3)"

text \<open>
  \<open>handleConnectorMessage\<close>. The answer is \<open>None\<close> when the promise resolves and the
  exception when it rejects.
\<close>

definition handleConnectorMessage ::
  "runtime \<Rightarrow> database \<Rightarrow> instance_entry \<Rightarrow> message \<Rightarrow> (string, instance_entry) jsmap
     \<Rightarrow> (string list \<Rightarrow> tools_resolution) \<Rightarrow> world \<Rightarrow> thrown option \<times> world"
where
  "handleConnectorMessage rt db entry message plugins getTools_for w =
     (case (if ie_enabled entry then getConnector (ie_plugin entry) else None) of
        None \<Rightarrow> (None, w)
      | Some c \<Rightarrow>
          (case bound_assistant db entry w of
             None \<Rightarrow>
               (case sendMessage c of
                  None \<Rightarrow> (None, w)
                | Some send \<Rightarrow>
                    (None,
                     emit (EvSendMessage (obj (ie_plugin entry))
                             \<lparr>smo_channelId = msg_channelId message,
                              smo_content = ''No assistant is configured for this bot. Configure one in the web UI (Assistants page).'',
                              smo_replyTo = Some (msg_id message), smo_attachments = None\<rparr>) w))
           | Some a \<Rightarrow> answer_message rt db entry c a message plugins getTools_for w))"

section \<open>Reading the trace\<close>

text \<open>The calls of \<open>generate\<close> in a list of events: messages, options and answer.\<close>

definition generate_call ::
  "event \<Rightarrow> (llm_message list \<times> llm_generate_options \<times> (thrown + llm_response)) list" where
  "generate_call e = (case e of EvGenerate p m msgs opts out \<Rightarrow> [(msgs, opts, out)] | _ \<Rightarrow> [])"

definition generate_calls ::
  "event list \<Rightarrow> (llm_message list \<times> llm_generate_options \<times> (thrown + llm_response)) list" where
  "generate_calls evs = concat (map generate_call evs)"




text \<open>The handlers that were invoked: instance id, tool name and input.\<close>

definition handler_call :: "event \<Rightarrow> (string \<times> string \<times> jsvalue) list" where
  "handler_call e = (case e of EvHandler i n input ctx \<Rightarrow> [(i, n, input)] | _ \<Rightarrow> [])"

definition handler_calls :: "event list \<Rightarrow> (string \<times> string \<times> jsvalue) list" where
  "handler_calls evs = concat (map handler_call evs)"

text \<open>
  \<open>tool_round a ms w w'\<close>: from \<open>w\<close> to \<open>w'\<close> the messages \<open>ms\<close> were pushed onto the
  array \<open>a\<close>, events were added, none of them a call of \<open>generate\<close>, and nothing else
  changed.
\<close>

definition tool_round :: "nat \<Rightarrow> llm_message list \<Rightarrow> world \<Rightarrow> world \<Rightarrow> bool" where
  "tool_round a ms w w' =
     (\<exists>new. w' = w\<lparr>events := events w @ new, arrays := (arrays w)(a := arrays w a @ ms)\<rparr>
           \<and> generate_calls new = [])"



text \<open>
  \<open>dispatches S w w'\<close>: from \<open>w\<close> to \<open>w'\<close> events were added, and every handler that
  was invoked belongs to an instance id in \<open>S\<close>.
\<close>

definition dispatches :: "string set \<Rightarrow> world \<Rightarrow> world \<Rightarrow> bool" where
  "dispatches S w w' =
     (\<exists>new. events w' = events w @ new \<and> (\<forall>c \<in> set (handler_calls new). fst c \<in> S))"



text \<open>The events of the typing heartbeat and of the replies.\<close>

definition typing_event :: "event \<Rightarrow> bool" where
  "typing_event e =
     (case e of EvSetInterval t \<Rightarrow> True | EvClearInterval t \<Rightarrow> True
      | EvSendMessage ob opts \<Rightarrow> True | EvSendError ob ch m code \<Rightarrow> True | _ \<Rightarrow> False)"




text \<open>What \<open>generateWithProvider\<close> returns of a run of \<open>generateWithTools\<close>.\<close>

definition provider_result ::
  "(thrown + generate_with_tools_result) \<times> world \<Rightarrow> (thrown + llm_response) \<times> world" where
  "provider_result x =
     (case x of (Inl e, w') \<Rightarrow> (Inl e, w') | (Inr result, w') \<Rightarrow> (Inr (response result), w'))"

text \<open>
  The tools an instance id contributes to a resolution: none when the id is absent from
  the registry, when the instance is disabled, or when it lacks the tooling capability.
\<close>

definition contributed_tools :: "(string, instance_entry) jsmap \<Rightarrow> string \<Rightarrow> tool_with_handler list" where
  "contributed_tools plugins iid =
     (case jsmap_get plugins iid of
        None \<Rightarrow> []
      | Some entry \<Rightarrow>
          if \<not> ie_enabled entry then []
          else (case toolsCapability (ie_plugin entry) of None \<Rightarrow> [] | Some cap \<Rightarrow> getTools cap))"

section \<open>Sample values\<close>

text \<open>Concrete plugins, messages and worlds, on which the theorems below are instantiated.\<close>

definition sample_message :: message where
  "sample_message =
     \<lparr>msg_id = ''m1'', msg_platform = ''discord'', msg_channelId = ''c1'', msg_userId = ''u1'',
      msg_username = ''alice'', msg_content = ''hello'', msg_timestamp = Some 0,
      msg_attachments = None, msg_replyTo = None, msg_subject = None, msg_systemPrompt = None\<rparr>"

definition sample_context :: tool_context where
  "sample_context =
     \<lparr>ctx_userId = ''u1'', ctx_channelId = ''c1'', ctx_platform = ''discord'',
      ctx_message = sample_message, ctx_assistantId = Some ''a1''\<rparr>"

definition echo_tool :: tool_with_handler where
  "echo_tool =
     \<lparr>tool_name = ''echo'', tool_description = ''Echo the input'', tool_parameters = [],
      tool_requiresApproval = False, handler = (\<lambda>evs input ctx. Inr input)\<rparr>"

definition echo_use :: tool_use where
  "echo_use = \<lparr>tu_id = ''1'', tu_name = ''echo'', tu_input = JObj [(''x'', JNum 1)]\<rparr>"

definition sample_metadata :: plugin_metadata where
  "sample_metadata =
     \<lparr>pm_id = ''sample'', pm_name = ''Sample'', pm_description = ''A sample plugin'',
      pm_version = ''1.0.0''\<rparr>"

definition tools_plugin :: "nat \<Rightarrow> tools_capability \<Rightarrow> plugin_base" where
  "tools_plugin n cap =
     \<lparr>obj = n, metadata = sample_metadata, shutdown = (\<lambda>evs. None), getConnector = None, getLLM = None,
      toolsCapability = Some cap\<rparr>"

definition sample_entry :: "string \<Rightarrow> bool \<Rightarrow> plugin_base \<Rightarrow> instance_entry" where
  "sample_entry i en p =
     \<lparr>ie_id = i, ie_type = ''sample'', ie_name = ''Sample'', ie_config = JObj [], ie_enabled = en,
      ie_plugin = p\<rparr>"

definition empty_world :: world where
  "empty_world =
     \<lparr>events = [], arrays = (\<lambda>a. []), next_array = 0, timers = [], next_timer = 0, next_obj = 0,
      connectorConversationCache = []\<rparr>"

text \<open>A tool provider whose approval hook answers \<open>verdict\<close>, and one without a hook.\<close>

definition gated_cap :: "bool \<Rightarrow> tools_capability" where
  "gated_cap verdict =
     \<lparr>getTools = [echo_tool], requestApproval = Some (\<lambda>evs t input ctx. Inr verdict)\<rparr>"

definition open_cap :: tools_capability where
  "open_cap = \<lparr>getTools = [echo_tool], requestApproval = None\<rparr>"

text \<open>
  A stand-in for the runtime: numbers are printed in decimal, the clock advances with the
  number of events, \<open>stringify\<close> prints scalars and abbreviates arrays and objects.
\<close>

fun digits :: "nat \<Rightarrow> string" where
  "digits n = (if n < 10 then [char_of (48 + n)] else digits (n div 10) @ [char_of (48 + n mod 10)])"

definition sample_runtime :: runtime where
  "sample_runtime =
     \<lparr>stringify = (\<lambda>v. case v of JNull \<Rightarrow> ''null'' | JBool b \<Rightarrow> (if b then ''true'' else ''false'')
                        | JNum n \<Rightarrow> (if n < 0 then ''-'' else []) @ digits (nat \<bar>n\<bar>)
                        | JStr s \<Rightarrow> s | JArr vs \<Rightarrow> ''[...]'' | JObj kvs \<Rightarrow> ''{...}''),
      now = (\<lambda>evs. int (length evs)),
      number_toString = (\<lambda>n. (if n < 0 then ''-'' else []) @ digits (nat \<bar>n\<bar>)),
      value_toString = (\<lambda>v. case v of JStr s \<Rightarrow> s | _ \<Rightarrow> ''[object]''),
      parse_url = (\<lambda>u. None)\<rparr>"

definition tool_request :: "tool_use list \<Rightarrow> llm_response" where
  "tool_request us =
     \<lparr>resp_content = None, resp_usage = None, resp_finishReason = Some ''tool_use'',
      resp_toolUses = Some us\<rparr>"

definition final_answer :: "string \<Rightarrow> llm_response" where
  "final_answer c =
     \<lparr>resp_content = Some c, resp_usage = None, resp_finishReason = Some ''stop'',
      resp_toolUses = Some []\<rparr>"

text \<open>
  A mock model backend: the \<open>k\<close>-th call of \<open>generate\<close> answers the \<open>k\<close>-th entry
  of the script, and \<open>dflt\<close> once the script is used up.
\<close>

definition scripted_llm :: "(thrown + llm_response) list \<Rightarrow> (thrown + llm_response) \<Rightarrow> llm" where
  "scripted_llm script dflt =
     \<lparr>getAvailableModels = [\<lparr>mi_id = ''m1'', mi_name = ''Model one''\<rparr>],
      generate = (\<lambda>evs model msgs opts.
         let k = length (generate_calls evs) in if k < length script then script ! k else dflt)\<rparr>"

definition llm_plugin :: "nat \<Rightarrow> llm \<Rightarrow> plugin_base" where
  "llm_plugin n l =
     \<lparr>obj = n, metadata = sample_metadata, shutdown = (\<lambda>evs. None), getConnector = None, getLLM = Some l,
      toolsCapability = None\<rparr>"

text \<open>A backend that asks for the echo tool in every response.\<close>

definition insistent_llm :: llm where
  "insistent_llm = scripted_llm [] (Inr (tool_request [echo_use]))"

definition sample_plugins :: "llm \<Rightarrow> tools_capability \<Rightarrow> (string, instance_entry) jsmap" where
  "sample_plugins l cap =
     [(''p1'', sample_entry ''p1'' True (llm_plugin 0 l)),
      (''t1'', sample_entry ''t1'' True (tools_plugin 1 cap))]"

definition hello :: llm_message where
  "hello = \<lparr>lm_role = User, lm_content = ''hello'', lm_images = None, lm_toolCallId = None,
            lm_toolName = None, lm_toolUses = None\<rparr>"

definition hello_world :: world where
  "hello_world = empty_world\<lparr>arrays := (\<lambda>a. if a = 0 then [hello] else []), next_array := 1\<rparr>"




text \<open>Two enabled tool providers and a disabled one, all declaring a tool \<open>search\<close>.\<close>

definition search_tool :: "string \<Rightarrow> tool_with_handler" where
  "search_tool d =
     \<lparr>tool_name = ''search'', tool_description = d, tool_parameters = [],
      tool_requiresApproval = False, handler = (\<lambda>evs input ctx. Inr (JStr d))\<rparr>"

definition search_plugins :: "llm \<Rightarrow> (string, instance_entry) jsmap" where
  "search_plugins l =
     [(''a_id'', sample_entry ''a_id'' True
                  (tools_plugin 0 \<lparr>getTools = [search_tool ''A''], requestApproval = None\<rparr>)),
      (''b_id'', sample_entry ''b_id'' True
                  (tools_plugin 1 \<lparr>getTools = [search_tool ''B''], requestApproval = None\<rparr>)),
      (''c_id'', sample_entry ''c_id'' False
                  (tools_plugin 2 \<lparr>getTools = [search_tool ''C''], requestApproval = None\<rparr>)),
      (''p1'', sample_entry ''p1'' True (llm_plugin 3 l))]"

text \<open>A backend that asks for one tool use and then answers.\<close>

definition two_step_llm :: "tool_use \<Rightarrow> llm" where
  "two_step_llm u = scripted_llm [Inr (tool_request [u])] (Inr (final_answer ''done''))"

definition search_use :: tool_use where
  "search_use = \<lparr>tu_id = ''7'', tu_name = ''search'', tu_input = JObj [(''q'', JStr ''tea'')]\<rparr>"

text \<open>A registry that holds a model provider and nothing else.\<close>

definition lonely_plugins :: "llm \<Rightarrow> (string, instance_entry) jsmap" where
  "lonely_plugins l = [(''p1'', sample_entry ''p1'' True (llm_plugin 0 l))]"

text \<open>A connector plugin and a loader that builds it.\<close>

definition sample_connector :: connector where
  "sample_connector =
     \<lparr>platform = ''discord'', connect = (\<lambda>evs. None), disconnect = (\<lambda>evs. None),
      isConnected = (\<lambda>evs. True), onSlashCommand = True,
      sendMessage = Some (\<lambda>evs opts. None), sendTyping = Some (\<lambda>evs channel. None),
      sendError = None\<rparr>"

definition connector_plugin :: "nat \<Rightarrow> connector \<Rightarrow> plugin_base" where
  "connector_plugin n c =
     \<lparr>obj = n, metadata = sample_metadata, shutdown = (\<lambda>evs. None), getConnector = Some c,
      getLLM = None, toolsCapability = None\<rparr>"




text \<open>A database that binds the connector \<open>d1\<close> to an assistant, and a registry with that connector.\<close>

definition sample_db :: database where
  "sample_db =
     \<lparr>pluginRepository_getOne = (\<lambda>evs i. if i = ''d1''
          then Some \<lparr>pr_id = ''d1'', pr_assistant = Some ''a1''\<rparr> else None),
      assistantRepository_getOne = (\<lambda>evs i. if i = ''a1''
          then Some \<lparr>ar_id = ''a1'', ar_name = ''Helper'', ar_llmProvider = ''p1'', ar_llmModel = ''m1'',
                     ar_systemPrompt = Some ''Be kind. '', ar_tools = Some [''t1'']\<rparr>
          else None),
      conversationRepository_findAll = (\<lambda>evs. [])\<rparr>"

definition d1_entry :: instance_entry where
  "d1_entry =
     \<lparr>ie_id = ''d1'', ie_type = ''discord'', ie_name = ''Discord'', ie_config = JObj [],
      ie_enabled = True, ie_plugin = connector_plugin 2 sample_connector\<rparr>"

definition chat_plugins :: "llm \<Rightarrow> (string, instance_entry) jsmap" where
  "chat_plugins l = (''d1'', d1_entry) # sample_plugins l open_cap"

definition answering_llm :: llm where
  "answering_llm = scripted_llm [] (Inr (final_answer ''hi''))"

definition failing_llm :: llm where
  "failing_llm = scripted_llm [] (Inl (JsError ''upstream''))"



section \<open>The effect of a tool round and of the loop\<close>

lemma generate_calls_simps [simp]:
  "generate_calls [] = []"
  "generate_calls (xs @ ys) = generate_calls xs @ generate_calls ys"
  "generate_calls (EvGenerate p m msgs opts out # evs) = (msgs, opts, out) # generate_calls evs"
  "generate_calls (EvRequestApproval i t input ctx # evs) = generate_calls evs"
  "generate_calls (EvHandler i n input ctx # evs) = generate_calls evs"
  "generate_calls (EvNow # evs) = generate_calls evs"
  by (simp_all add: generate_calls_def generate_call_def)

lemma emit_simps [simp]:
  "events (emit e w) = events w @ [e]"
  "arrays (emit e w) = arrays w"
  "next_array (emit e w) = next_array w"
  "timers (emit e w) = timers w"
  "next_timer (emit e w) = next_timer w"
  "next_obj (emit e w) = next_obj w"
  "connectorConversationCache (emit e w) = connectorConversationCache w"
  by (simp_all add: emit_def)

lemma tool_round_refl: "tool_round a [] w w"
  unfolding tool_round_def by (rule exI[of _ "[]"]) simp

lemma tool_round_trans:
  assumes "tool_round a ms w w'" and "tool_round a ms' w' w''"
  shows "tool_round a (ms @ ms') w w''"
proof -
  from assms obtain n1 n2 where n:
      "w' = w\<lparr>events := events w @ n1, arrays := (arrays w)(a := arrays w a @ ms)\<rparr>"
      "generate_calls n1 = []"
      "w'' = w'\<lparr>events := events w' @ n2, arrays := (arrays w')(a := arrays w' a @ ms')\<rparr>"
      "generate_calls n2 = []"
    unfolding tool_round_def by blast
  have "w'' = w\<lparr>events := events w @ (n1 @ n2), arrays := (arrays w)(a := arrays w a @ (ms @ ms'))\<rparr>
          \<and> generate_calls (n1 @ n2) = []"
    using n by simp
  then show ?thesis unfolding tool_round_def by blast
qed

lemma tool_round_emit:
  assumes "generate_calls [e] = []" and "tool_round a ms w w'"
  shows "tool_round a ms w (emit e w')"
proof -
  have "tool_round a [] w' (emit e w')"
    unfolding tool_round_def emit_def using assms(1) by (intro exI[of _ "[e]"]) simp
  from tool_round_trans [OF assms(2) this] show ?thesis by simp
qed

lemma tool_round_push:
  assumes "tool_round a ms w w'"
  shows "tool_round a (ms @ [m]) w (array_push a m w')"
proof -
  have "tool_round a [m] w' (array_push a m w')"
    unfolding tool_round_def array_push_def by (intro exI[of _ "[]"]) simp
  from tool_round_trans [OF assms this] show ?thesis .
qed

lemma executeTool_quiet: "tool_round a [] w (snd (executeTool instanceId toolUse context plugins w))"
  unfolding executeTool_def call_handler_def Let_def
  by (auto split: option.split sum.split intro!: tool_round_refl tool_round_emit)

lemma tool_outcome_quiet: "tool_round a [] w (snd (tool_outcome u idx ctx plugins w))"
proof (cases "jsmap_get idx (tu_name u)")
  case None
  then show ?thesis by (simp add: tool_outcome_def tool_round_refl)
next
  case (Some i)
  show ?thesis
  proof (cases "i = []")
    case True
    with Some show ?thesis by (simp add: tool_outcome_def tool_round_refl)
  next
    case False
    obtain out w' where ex: "executeTool i u ctx plugins w = (out, w')"
      by (cases "executeTool i u ctx plugins w")
    with executeTool_quiet [of a w i u ctx plugins] have "tool_round a [] w w'" by simp
    with Some False ex show ?thesis
      by (cases out) (simp_all add: tool_outcome_def)
  qed
qed

lemma run_tool_use_unfold:
  "run_tool_use rt u idx ctx plugins cur usages w =
     (let w1 = emit EvNow w;
          out = tool_outcome u idx ctx plugins w1;
          w2 = snd out
      in (usages @
            [\<lparr>cu_toolName = tu_name u, cu_input = tu_input u, cu_output = fst (fst out),
              cu_error = snd (fst out),
              cu_durationMs = now rt (events w2) - now rt (events w)\<rparr>],
          array_push cur (tool_message rt u (fst (fst out))) (emit EvNow w2)))"
  unfolding run_tool_use_def date_now_def tool_outcome_def Let_def
  by (simp split: prod.split option.split sum.split)

lemma run_tool_use_effect:
  "\<exists>rec w1. run_tool_use rt u idx ctx plugins cur usages w = (usages @ [rec], w1)
         \<and> tool_round cur [tool_message rt u (cu_output rec)] w w1
         \<and> cu_toolName rec = tu_name u \<and> cu_input rec = tu_input u"
proof -
  have a: "tool_round cur [] w (emit EvNow w)"
    by (rule tool_round_emit [OF _ tool_round_refl]) simp
  have b: "tool_round cur [] w (snd (tool_outcome u idx ctx plugins (emit EvNow w)))"
    using tool_round_trans [OF a tool_outcome_quiet] by simp
  have c: "tool_round cur [] w (emit EvNow (snd (tool_outcome u idx ctx plugins (emit EvNow w))))"
    by (rule tool_round_emit [OF _ b]) simp
  from tool_round_push [OF c] show ?thesis
    unfolding run_tool_use_unfold Let_def by simp
qed

lemma run_tool_uses_effect:
  "\<exists>recs w1. run_tool_uses rt us idx ctx plugins cur usages w = (usages @ recs, w1)
         \<and> tool_round cur (map2 (tool_message rt) us (map cu_output recs)) w w1
         \<and> map cu_toolName recs = map tu_name us \<and> map cu_input recs = map tu_input us"
proof (induction us arbitrary: usages w)
  case Nil
  show ?case by (simp add: tool_round_refl)
next
  case (Cons u us)
  obtain rec w1 where one: "run_tool_use rt u idx ctx plugins cur usages w = (usages @ [rec], w1)"
      "tool_round cur [tool_message rt u (cu_output rec)] w w1"
      "cu_toolName rec = tu_name u" "cu_input rec = tu_input u"
    using run_tool_use_effect by blast
  obtain recs w2 where
      more: "run_tool_uses rt us idx ctx plugins cur (usages @ [rec]) w1 = ((usages @ [rec]) @ recs, w2)"
      "tool_round cur (map2 (tool_message rt) us (map cu_output recs)) w1 w2"
      "map cu_toolName recs = map tu_name us" "map cu_input recs = map tu_input us"
    using Cons.IH by blast
  have "run_tool_uses rt (u # us) idx ctx plugins cur usages w = (usages @ (rec # recs), w2)"
    using one(1) more(1) by simp
  moreover have "tool_round cur (map2 (tool_message rt) (u # us) (map cu_output (rec # recs))) w w2"
    using tool_round_trans [OF one(2) more(2)] by simp
  ultimately show ?case using one(3,4) more(3,4)
    by (intro exI[of _ "rec # recs"] exI[of _ w2]) simp
qed



lemma tool_round_arrays:
  "tool_round a ms w w' \<Longrightarrow> arrays w' = (arrays w)(a := arrays w a @ ms) \<and> next_array w' = next_array w"
  unfolding tool_round_def by auto


section \<open>Properties of the agentic loop\<close>

lemma generateWithTools_unfold:
  assumes "jsmap_get plugins providerId = Some entry" and "ie_enabled entry"
    and "getLLM (ie_plugin entry) = Some l"
  shows "generateWithTools rt providerId model messages tools idx ctx plugins options w =
     tool_loop MAX_TOOL_LOOP_ITERATIONS rt providerId l model tools idx ctx plugins options
       (next_array w) []
       (w\<lparr>arrays := (arrays w)(next_array w := arrays w messages), next_array := Suc (next_array w)\<rparr>)"
  using assms by (simp add: generateWithTools_def new_array_def)




lemma tool_loop_frame:
  "a < next_array w \<Longrightarrow>
   arrays (snd (tool_loop n rt pid l model tools idx ctx plugins options cur usages w)) a = arrays w a
   \<and> next_array w \<le> next_array (snd (tool_loop n rt pid l model tools idx ctx plugins options cur usages w))"
proof (induction n arbitrary: cur usages w)
  case 0
  show ?case
    by (simp add: call_generate_def Let_def split: sum.split)
next
  case (Suc n)
  let ?opts = "with_tools options (if length tools > 0 then Some tools else None)"
  let ?out = "generate l (events w) model (arrays w cur) ?opts"
  let ?w1 = "emit (EvGenerate pid model (arrays w cur) ?opts ?out) w"
  show ?case
  proof (cases ?out)
    case (Inl e)
    then show ?thesis by (simp add: call_generate_def Let_def)
  next
    case (Inr r)
    show ?thesis
    proof (cases "no_tool_uses r")
      case True
      with Inr show ?thesis by (simp add: call_generate_def Let_def)
    next
      case False
      let ?cur' = "next_array w"
      let ?w2 = "snd (new_array (arrays ?w1 cur @ [assistantTurn r]) ?w1)"
      obtain recs1 w3 where tools_run:
          "run_tool_uses rt (uses_of r) idx ctx plugins ?cur' usages ?w2 = (usages @ recs1, w3)"
          "tool_round ?cur' (map2 (tool_message rt) (uses_of r) (map cu_output recs1)) ?w2 w3"
        using run_tool_uses_effect by blast
      have step: "tool_loop (Suc n) rt pid l model tools idx ctx plugins options cur usages w =
          tool_loop n rt pid l model tools idx ctx plugins options ?cur' (usages @ recs1) w3"
        using Inr False tools_run(1) by (simp add: call_generate_def new_array_def Let_def)
      have w3: "arrays w3 a = arrays w a" "next_array w3 = Suc (next_array w)"
        using tool_round_arrays [OF tools_run(2)] Suc.prems by (simp_all add: new_array_def)
      have "a < next_array w3" using w3(2) Suc.prems by simp
      from Suc.IH [OF this, of ?cur' "usages @ recs1"] show ?thesis
        unfolding step using w3 by simp
    qed
  qed
qed

text \<open>
  Claim C10. \<open>generateWithTools\<close> never changes the message array of its caller: the
  assistant turns and tool messages go to arrays the call allocates itself. Whether the
  call returns a result or throws, the array at the caller's address holds afterwards what
  it held before.
\<close>

theorem generateWithTools_keeps_messages:
  assumes "messages < next_array w"
  shows "arrays (snd (generateWithTools rt providerId model messages tools idx ctx plugins options w))
           messages = arrays w messages"
proof (cases "\<exists>entry l. jsmap_get plugins providerId = Some entry \<and> ie_enabled entry
                 \<and> getLLM (ie_plugin entry) = Some l")
  case True
  then obtain entry l where p: "jsmap_get plugins providerId = Some entry" "ie_enabled entry"
      "getLLM (ie_plugin entry) = Some l" by blast
  let ?w1 = "w\<lparr>arrays := (arrays w)(next_array w := arrays w messages), next_array := Suc (next_array w)\<rparr>"
  have "messages < next_array ?w1" using assms by simp
  from tool_loop_frame [OF this] assms show ?thesis
    unfolding generateWithTools_unfold [OF p] by simp
next
  case False
  then show ?thesis
    by (auto simp: generateWithTools_def split: option.split)
qed

theorem generateWithTools_keeps_messages_witness:
  "(0::nat) < next_array hello_world
   \<and> arrays (snd (generateWithTools sample_runtime ''p1'' ''m1'' 0 (toTools [echo_tool])
         [(''echo'', ''t1'')] sample_context (sample_plugins insistent_llm open_cap) None hello_world))
       0 = [hello]"
proof -
  have h: "(0::nat) < next_array hello_world"
    by (simp add: hello_world_def empty_world_def)
  from generateWithTools_keeps_messages [OF h] h show ?thesis
    by (simp add: hello_world_def empty_world_def)
qed







section \<open>Properties of the tool executor\<close>

text \<open>
  Claim C6. When \<open>executeTool\<close> has resolved the instance and the named tool, and the
  instance declares an approval hook, the hook is called with the tool, the input and the
  context before anything is executed. If the hook answers false, the handler is not
  invoked (the only event added is the approval request) and the call returns, as a normal
  value, exactly the object \<open>{error: 'Action was not approved'}\<close>. If the hook approves,
  the handler is invoked after the hook and its outcome is returned unchanged; if no hook
  is declared, the handler is invoked at once and its outcome is returned unchanged.
\<close>

theorem executeTool_approval_gate:
  assumes "jsmap_get plugins instanceId = Some entry"
    and "toolsCapability (ie_plugin entry) = Some cap"
    and "find (\<lambda>t. tool_name t = tu_name toolUse) (getTools cap) = Some t"
  shows "(\<forall>hook. requestApproval cap = Some hook \<and>
             hook (events w) t (tu_input toolUse) context = Inr False \<longrightarrow>
           executeTool instanceId toolUse context plugins w =
             (Inr (JObj [(''error'', JStr ''Action was not approved'')]),
              w\<lparr>events := events w @
                   [EvRequestApproval instanceId (toTool t) (tu_input toolUse) context]\<rparr>))
       \<and> (\<forall>hook. requestApproval cap = Some hook \<and>
             hook (events w) t (tu_input toolUse) context = Inr True \<longrightarrow>
           executeTool instanceId toolUse context plugins w =
             (handler t (events w @ [EvRequestApproval instanceId (toTool t) (tu_input toolUse) context])
                (tu_input toolUse) context,
              w\<lparr>events := events w @
                   [EvRequestApproval instanceId (toTool t) (tu_input toolUse) context,
                    EvHandler instanceId (tool_name t) (tu_input toolUse) context]\<rparr>))
       \<and> (requestApproval cap = None \<longrightarrow>
           executeTool instanceId toolUse context plugins w =
             (handler t (events w) (tu_input toolUse) context,
              w\<lparr>events := events w @
                   [EvHandler instanceId (tool_name t) (tu_input toolUse) context]\<rparr>))"
  using assms by (auto simp: executeTool_def call_handler_def emit_def Let_def)

theorem executeTool_approval_gate_witness:
  "executeTool ''t1'' echo_use sample_context
       [(''t1'', sample_entry ''t1'' True (tools_plugin 0 (gated_cap False)))] empty_world =
     (Inr (JObj [(''error'', JStr ''Action was not approved'')]),
      empty_world\<lparr>events :=
        [EvRequestApproval ''t1'' (toTool echo_tool) (JObj [(''x'', JNum 1)]) sample_context]\<rparr>)
   \<and> executeTool ''t1'' echo_use sample_context
       [(''t1'', sample_entry ''t1'' True (tools_plugin 0 (gated_cap True)))] empty_world =
     (Inr (JObj [(''x'', JNum 1)]),
      empty_world\<lparr>events :=
        [EvRequestApproval ''t1'' (toTool echo_tool) (JObj [(''x'', JNum 1)]) sample_context,
         EvHandler ''t1'' ''echo'' (JObj [(''x'', JNum 1)]) sample_context]\<rparr>)
   \<and> executeTool ''t1'' echo_use sample_context
       [(''t1'', sample_entry ''t1'' True (tools_plugin 0 open_cap))] empty_world =
     (Inr (JObj [(''x'', JNum 1)]),
      empty_world\<lparr>events := [EvHandler ''t1'' ''echo'' (JObj [(''x'', JNum 1)]) sample_context]\<rparr>)"
proof -
  have find_echo: "find (\<lambda>t. tool_name t = tu_name echo_use) [echo_tool] = Some echo_tool"
    by (simp add: echo_tool_def echo_use_def)
  have denied:
    "jsmap_get [(''t1'', sample_entry ''t1'' True (tools_plugin 0 (gated_cap False)))] ''t1'' =
       Some (sample_entry ''t1'' True (tools_plugin 0 (gated_cap False)))"
    "toolsCapability (ie_plugin (sample_entry ''t1'' True (tools_plugin 0 (gated_cap False)))) =
       Some (gated_cap False)"
    "find (\<lambda>t. tool_name t = tu_name echo_use) (getTools (gated_cap False)) = Some echo_tool"
    using find_echo by (simp_all add: sample_entry_def tools_plugin_def gated_cap_def)
  have approved:
    "jsmap_get [(''t1'', sample_entry ''t1'' True (tools_plugin 0 (gated_cap True)))] ''t1'' =
       Some (sample_entry ''t1'' True (tools_plugin 0 (gated_cap True)))"
    "toolsCapability (ie_plugin (sample_entry ''t1'' True (tools_plugin 0 (gated_cap True)))) =
       Some (gated_cap True)"
    "find (\<lambda>t. tool_name t = tu_name echo_use) (getTools (gated_cap True)) = Some echo_tool"
    using find_echo by (simp_all add: sample_entry_def tools_plugin_def gated_cap_def)
  have ungated:
    "jsmap_get [(''t1'', sample_entry ''t1'' True (tools_plugin 0 open_cap))] ''t1'' =
       Some (sample_entry ''t1'' True (tools_plugin 0 open_cap))"
    "toolsCapability (ie_plugin (sample_entry ''t1'' True (tools_plugin 0 open_cap))) = Some open_cap"
    "find (\<lambda>t. tool_name t = tu_name echo_use) (getTools open_cap) = Some echo_tool"
    using find_echo by (simp_all add: sample_entry_def tools_plugin_def open_cap_def)
  show ?thesis
    using executeTool_approval_gate [OF denied, of empty_world sample_context]
      executeTool_approval_gate [OF approved, of empty_world sample_context]
      executeTool_approval_gate [OF ungated, of empty_world sample_context]
    by (simp add: gated_cap_def open_cap_def echo_tool_def echo_use_def empty_world_def)
qed

section \<open>Properties of tool resolution\<close>

lemma jsmap_get_set: "jsmap_get (jsmap_set m k v) k' = (if k' = k then Some v else jsmap_get m k')"
  by (induction m) auto

lemma jsmap_get_fold_set:
  "jsmap_get (fold (\<lambda>t m. jsmap_set m (f t) v) ts m) k =
     (if k \<in> f ` set ts then Some v else jsmap_get m k)"
  by (induction ts arbitrary: m) (auto simp: jsmap_get_set)

lemma add_tools_of_eq:
  "add_tools_of plugins iid acc =
     \<lparr>tr_tools = tr_tools acc @ toTools (contributed_tools plugins iid),
      tr_nameToInstanceId =
        fold (\<lambda>t m. jsmap_set m (tool_name t) iid) (contributed_tools plugins iid)
          (tr_nameToInstanceId acc)\<rparr>"
  by (simp add: add_tools_of_def contributed_tools_def toTools_def split: option.split)

lemma fold_add_tools_of_tools:
  "tr_tools (fold (add_tools_of plugins) ids acc) =
     tr_tools acc @ concat (map (\<lambda>iid. toTools (contributed_tools plugins iid)) ids)"
proof (induction ids arbitrary: acc)
  case Nil
  show ?case by simp
next
  case (Cons iid ids)
  have "tr_tools (fold (add_tools_of plugins) (iid # ids) acc) =
      tr_tools (fold (add_tools_of plugins) ids (add_tools_of plugins iid acc))"
    by simp
  also have "\<dots> = tr_tools (add_tools_of plugins iid acc) @
      concat (map (\<lambda>iid. toTools (contributed_tools plugins iid)) ids)"
    by (rule Cons.IH)
  also have "\<dots> = tr_tools acc @
      concat (map (\<lambda>iid. toTools (contributed_tools plugins iid)) (iid # ids))"
    by (simp add: add_tools_of_eq [of plugins iid acc])
  finally show ?case .
qed

lemma fold_add_tools_of_index:
  "jsmap_get (tr_nameToInstanceId (fold (add_tools_of plugins) ids acc)) name =
     (case filter (\<lambda>iid. name \<in> tool_name ` set (contributed_tools plugins iid)) ids of
        [] \<Rightarrow> jsmap_get (tr_nameToInstanceId acc) name
      | xs \<Rightarrow> Some (last xs))"
proof (induction ids arbitrary: acc)
  case Nil
  show ?case by simp
next
  case (Cons iid ids)
  let ?P = "\<lambda>iid. name \<in> tool_name ` set (contributed_tools plugins iid)"
  have "jsmap_get (tr_nameToInstanceId (fold (add_tools_of plugins) (iid # ids) acc)) name =
      jsmap_get (tr_nameToInstanceId (fold (add_tools_of plugins) ids (add_tools_of plugins iid acc))) name"
    by simp
  also have "\<dots> = (case filter ?P ids of
        [] \<Rightarrow> jsmap_get (tr_nameToInstanceId (add_tools_of plugins iid acc)) name
      | xs \<Rightarrow> Some (last xs))"
    by (rule Cons.IH)
  also have "\<dots> = (case filter ?P (iid # ids) of
        [] \<Rightarrow> jsmap_get (tr_nameToInstanceId acc) name
      | xs \<Rightarrow> Some (last xs))"
    by (simp add: add_tools_of_eq [of plugins iid acc] jsmap_get_fold_set split: list.split)
  finally show ?case .
qed

text \<open>
  Claim C5. For every list of provider ids, the tools that \<open>getToolsForActionIds\<close>
  returns are the handler-stripped tools of the ids that are present, enabled and have the
  tooling capability, in the order of the list (an id that is absent, disabled or without
  tooling contributes nothing); and the reverse index maps a tool name to the last id of
  the list that contributes a tool of that name, so that of two enabled providers
  declaring the same name the later one wins while both schemas stay in the list.
\<close>

theorem getToolsForActionIds_last_write_wins:
  "tr_tools (getToolsForActionIds plugins providerIds) =
     concat (map (\<lambda>iid. toTools (contributed_tools plugins iid)) providerIds)
   \<and> jsmap_get (tr_nameToInstanceId (getToolsForActionIds plugins providerIds)) name =
     (case filter (\<lambda>iid. name \<in> tool_name ` set (contributed_tools plugins iid)) providerIds of
        [] \<Rightarrow> None
      | xs \<Rightarrow> Some (last xs))"
  unfolding getToolsForActionIds_def
  by (simp add: fold_add_tools_of_tools fold_add_tools_of_index split: list.split)

theorem getToolsForActionIds_last_write_wins_witness:
  "tr_tools (getToolsForActionIds (search_plugins insistent_llm) [''a_id'', ''c_id'', ''x_id'', ''p1'', ''b_id'']) =
     [toTool (search_tool ''A''), toTool (search_tool ''B'')]
   \<and> jsmap_get (tr_nameToInstanceId
        (getToolsForActionIds (search_plugins insistent_llm) [''a_id'', ''c_id'', ''x_id'', ''p1'', ''b_id''])) ''search'' =
     Some ''b_id''"
  using getToolsForActionIds_last_write_wins
    [of "search_plugins insistent_llm" "[''a_id'', ''c_id'', ''x_id'', ''p1'', ''b_id'']" "''search''"]
  by (simp add: contributed_tools_def search_plugins_def sample_entry_def tools_plugin_def
      llm_plugin_def search_tool_def toTools_def)

section \<open>Disabled instances\<close>

lemma handler_calls_simps [simp]:
  "handler_calls [] = []"
  "handler_calls (xs @ ys) = handler_calls xs @ handler_calls ys"
  "handler_calls (EvHandler i n input ctx # evs) = (i, n, input) # handler_calls evs"
  "handler_calls (EvGenerate p m msgs opts out # evs) = handler_calls evs"
  "handler_calls (EvRequestApproval i t input ctx # evs) = handler_calls evs"
  "handler_calls (EvNow # evs) = handler_calls evs"
  by (simp_all add: handler_calls_def handler_call_def)

lemma dispatches_refl: "dispatches S w w"
  unfolding dispatches_def by (rule exI[of _ "[]"]) simp

lemma dispatches_trans:
  assumes "dispatches S w w'" and "dispatches S w' w''"
  shows "dispatches S w w''"
proof -
  from assms obtain n1 n2 where n: "events w' = events w @ n1"
      "\<forall>c \<in> set (handler_calls n1). fst c \<in> S" "events w'' = events w' @ n2"
      "\<forall>c \<in> set (handler_calls n2). fst c \<in> S"
    unfolding dispatches_def by blast
  have "events w'' = events w @ (n1 @ n2) \<and> (\<forall>c \<in> set (handler_calls (n1 @ n2)). fst c \<in> S)"
    using n by auto
  then show ?thesis unfolding dispatches_def by blast
qed

lemma dispatches_emit:
  assumes "\<forall>c \<in> set (handler_calls [e]). fst c \<in> S" and "dispatches S w w'"
  shows "dispatches S w (emit e w')"
proof -
  have "dispatches S w' (emit e w')"
    unfolding dispatches_def using assms(1) by (intro exI[of _ "[e]"]) simp
  from dispatches_trans [OF assms(2) this] show ?thesis .
qed

lemma dispatches_mono: "dispatches S w w' \<Longrightarrow> S \<subseteq> T \<Longrightarrow> dispatches T w w'"
  unfolding dispatches_def by blast

lemma dispatches_same_events: "events w' = events w \<Longrightarrow> dispatches S w w'"
  unfolding dispatches_def by (intro exI[of _ "[]"]) simp

lemma executeTool_dispatches:
  "dispatches {instanceId} w (snd (executeTool instanceId toolUse context plugins w))"
  unfolding executeTool_def call_handler_def Let_def
  by (auto split: option.split sum.split intro!: dispatches_refl dispatches_emit)

lemma tool_outcome_dispatches:
  "dispatches {i. \<exists>n. jsmap_get idx n = Some i} w (snd (tool_outcome u idx ctx plugins w))"
proof (cases "jsmap_get idx (tu_name u)")
  case None
  then show ?thesis by (simp add: tool_outcome_def dispatches_refl)
next
  case (Some i)
  show ?thesis
  proof (cases "i = []")
    case True
    with Some show ?thesis by (simp add: tool_outcome_def dispatches_refl)
  next
    case False
    obtain out w' where ex: "executeTool i u ctx plugins w = (out, w')"
      by (cases "executeTool i u ctx plugins w")
    with executeTool_dispatches [of i w u ctx plugins] have "dispatches {i} w w'" by simp
    then have "dispatches {i. \<exists>n. jsmap_get idx n = Some i} w w'"
      using Some by (auto intro: dispatches_mono)
    with Some False ex show ?thesis
      by (cases out) (simp_all add: tool_outcome_def)
  qed
qed

lemma run_tool_use_dispatches:
  "dispatches {i. \<exists>n. jsmap_get idx n = Some i} w
     (snd (run_tool_use rt u idx ctx plugins cur usages w))"
proof -
  let ?S = "{i. \<exists>n. jsmap_get idx n = Some i}"
  have a: "dispatches ?S w (emit EvNow w)"
    by (rule dispatches_emit [OF _ dispatches_refl]) simp
  have b: "dispatches ?S w (snd (tool_outcome u idx ctx plugins (emit EvNow w)))"
    using dispatches_trans [OF a tool_outcome_dispatches] .
  have c: "dispatches ?S w (emit EvNow (snd (tool_outcome u idx ctx plugins (emit EvNow w))))"
    by (rule dispatches_emit [OF _ b]) simp
  have d: "dispatches ?S w (array_push cur m (emit EvNow (snd (tool_outcome u idx ctx plugins (emit EvNow w)))))" for m
    by (rule dispatches_trans [OF c dispatches_same_events]) (simp add: array_push_def)
  show ?thesis
    unfolding run_tool_use_unfold Let_def using d by simp
qed

lemma run_tool_uses_dispatches:
  "dispatches {i. \<exists>n. jsmap_get idx n = Some i} w
     (snd (run_tool_uses rt us idx ctx plugins cur usages w))"
proof (induction us arbitrary: usages w)
  case Nil
  show ?case by (simp add: dispatches_refl)
next
  case (Cons u us)
  obtain usages' w' where one: "run_tool_use rt u idx ctx plugins cur usages w = (usages', w')"
    by (cases "run_tool_use rt u idx ctx plugins cur usages w")
  with run_tool_use_dispatches [of idx w rt u ctx plugins cur usages]
  have "dispatches {i. \<exists>n. jsmap_get idx n = Some i} w w'" by simp
  from dispatches_trans [OF this Cons.IH [where usages = usages' and w = w']] one show ?case by simp
qed

lemma tool_loop_dispatches:
  "dispatches {i. \<exists>n. jsmap_get idx n = Some i} w
     (snd (tool_loop n rt pid l model tools idx ctx plugins options cur usages w))"
proof (induction n arbitrary: cur usages w)
  case 0
  have "dispatches {i. \<exists>n. jsmap_get idx n = Some i} w (emit e w)"
    if "handler_calls [e] = []" for e
    by (rule dispatches_emit [OF _ dispatches_refl]) (simp add: that)
  then show ?case
    by (simp add: call_generate_def Let_def split: sum.split)
next
  case (Suc n)
  let ?S = "{i. \<exists>n. jsmap_get idx n = Some i}"
  let ?opts = "with_tools options (if length tools > 0 then Some tools else None)"
  let ?out = "generate l (events w) model (arrays w cur) ?opts"
  let ?w1 = "emit (EvGenerate pid model (arrays w cur) ?opts ?out) w"
  have w1: "dispatches ?S w ?w1"
    by (rule dispatches_emit [OF _ dispatches_refl]) simp
  show ?case
  proof (cases ?out)
    case (Inl e)
    with w1 show ?thesis by (simp add: call_generate_def Let_def)
  next
    case (Inr r)
    show ?thesis
    proof (cases "no_tool_uses r")
      case True
      with Inr w1 show ?thesis by (simp add: call_generate_def Let_def)
    next
      case False
      let ?cur' = "next_array w"
      let ?w2 = "snd (new_array (arrays ?w1 cur @ [assistantTurn r]) ?w1)"
      obtain usages' w3 where tools_run:
          "run_tool_uses rt (uses_of r) idx ctx plugins ?cur' usages ?w2 = (usages', w3)"
        by (cases "run_tool_uses rt (uses_of r) idx ctx plugins ?cur' usages ?w2")
      have step: "tool_loop (Suc n) rt pid l model tools idx ctx plugins options cur usages w =
          tool_loop n rt pid l model tools idx ctx plugins options ?cur' usages' w3"
        using Inr False tools_run by (simp add: call_generate_def new_array_def Let_def)
      have w2: "dispatches ?S w ?w2"
        by (rule dispatches_trans [OF w1 dispatches_same_events]) (simp add: new_array_def)
      have "dispatches ?S ?w2 w3"
        using run_tool_uses_dispatches [of idx ?w2 rt "uses_of r" ctx plugins ?cur' usages] tools_run
        by simp
      from dispatches_trans [OF dispatches_trans [OF w2 this] Suc.IH [where cur = "next_array w" and usages = usages' and w = w3]]
      show ?thesis unfolding step .
    qed
  qed
qed

lemma generateWithTools_dispatches:
  "dispatches {i. \<exists>n. jsmap_get idx n = Some i} w
     (snd (generateWithTools rt pid model messages tools idx ctx plugins options w))"
proof (cases "\<exists>entry l. jsmap_get plugins pid = Some entry \<and> ie_enabled entry
                 \<and> getLLM (ie_plugin entry) = Some l")
  case True
  then obtain entry l where p: "jsmap_get plugins pid = Some entry" "ie_enabled entry"
      "getLLM (ie_plugin entry) = Some l" by blast
  show ?thesis
    unfolding generateWithTools_unfold [OF p]
    by (rule dispatches_trans [OF dispatches_same_events tool_loop_dispatches]) simp
next
  case False
  then show ?thesis
    by (auto simp: generateWithTools_def dispatches_refl split: option.split)
qed

lemma executeTool_enabled_irrelevant:
  assumes "jsmap_get plugins i = Some entry"
  shows "executeTool i u ctx (jsmap_set plugins i (entry\<lparr>ie_enabled := b\<rparr>)) w =
         executeTool i u ctx plugins w"
  using assms by (simp add: executeTool_def jsmap_get_set)

text \<open>
  Claim C7, as stated, fails: \<open>executeTool\<close> does not look at the \<open>enabled\<close> flag.
  Asked to run the echo tool of an instance whose flag is false, it invokes the handler.
\<close>

theorem executeTool_disabled_counterexample:
  "jsmap_get [(''t1'', sample_entry ''t1'' False (tools_plugin 0 open_cap))] ''t1'' =
     Some (sample_entry ''t1'' False (tools_plugin 0 open_cap))
   \<and> \<not> ie_enabled (sample_entry ''t1'' False (tools_plugin 0 open_cap))
   \<and> handler_calls (events (snd (executeTool ''t1'' echo_use sample_context
        [(''t1'', sample_entry ''t1'' False (tools_plugin 0 open_cap))] empty_world))) =
      [(''t1'', ''echo'', JObj [(''x'', JNum 1)])]"
  by (simp add: executeTool_def call_handler_def sample_entry_def tools_plugin_def open_cap_def
      echo_tool_def echo_use_def empty_world_def)

text \<open>
  Claim C7, amended. Disabled instances are kept out where tools are resolved and where
  the model provider is looked up, not in \<open>executeTool\<close>. Every instance id in the
  reverse index that \<open>getToolsForActionIds\<close> returns belongs to an instance that is
  present, enabled and has the tooling capability; so a run of \<open>generateWithTools\<close> with
  that index, on the registry it was resolved against, only invokes handlers of enabled
  instances. \<open>generateWithTools\<close> refuses a disabled model provider without calling it.
  \<open>executeTool\<close> itself does the same whatever the flag of the instance is.
\<close>

theorem disabled_instances_not_resolved:
  "(\<forall>name iid.
       jsmap_get (tr_nameToInstanceId (getToolsForActionIds plugins ids)) name = Some iid \<longrightarrow>
       (\<exists>entry. jsmap_get plugins iid = Some entry \<and> ie_enabled entry \<and> hasTools (ie_plugin entry)))
   \<and> (\<exists>new. events (snd (generateWithTools rt pid model messages tools
                 (tr_nameToInstanceId (getToolsForActionIds plugins ids)) ctx plugins options w)) =
               events w @ new
          \<and> (\<forall>c \<in> set (handler_calls new).
                \<exists>entry. jsmap_get plugins (fst c) = Some entry \<and> ie_enabled entry
                   \<and> hasTools (ie_plugin entry)))
   \<and> (\<forall>entry. jsmap_get plugins pid = Some entry \<and> \<not> ie_enabled entry \<longrightarrow>
         generateWithTools rt pid model messages tools idx ctx plugins options w =
           (Inl (JsError ''LLM provider not found or disabled''), w))
   \<and> (\<forall>entry b. jsmap_get plugins i = Some entry \<longrightarrow>
         executeTool i u ctx (jsmap_set plugins i (entry\<lparr>ie_enabled := b\<rparr>)) w =
         executeTool i u ctx plugins w)"
proof -
  let ?idx = "tr_nameToInstanceId (getToolsForActionIds plugins ids)"
  have resolved: "\<exists>entry. jsmap_get plugins iid = Some entry \<and> ie_enabled entry \<and> hasTools (ie_plugin entry)"
    if "jsmap_get ?idx name = Some iid" for name iid
  proof -
    let ?xs = "filter (\<lambda>iid. name \<in> tool_name ` set (contributed_tools plugins iid)) ids"
    from that have ne: "?xs \<noteq> []" and l: "iid = last ?xs"
      by (auto simp: getToolsForActionIds_def fold_add_tools_of_index split: list.splits)
    from ne l have "iid \<in> set ?xs" using last_in_set by blast
    then have "contributed_tools plugins iid \<noteq> []" by auto
    then show ?thesis
      by (auto simp: contributed_tools_def hasTools_def split: option.splits if_splits)
  qed
  obtain new where new: "events (snd (generateWithTools rt pid model messages tools ?idx ctx plugins
        options w)) = events w @ new" "\<forall>c \<in> set (handler_calls new). fst c \<in> {i. \<exists>n. jsmap_get ?idx n = Some i}"
    using generateWithTools_dispatches [of ?idx w rt pid model messages tools ctx plugins options]
    unfolding dispatches_def by blast
  have dispatched: "\<forall>c \<in> set (handler_calls new).
        \<exists>entry. jsmap_get plugins (fst c) = Some entry \<and> ie_enabled entry \<and> hasTools (ie_plugin entry)"
    using new(2) resolved by blast
  have refused: "\<forall>entry. jsmap_get plugins pid = Some entry \<and> \<not> ie_enabled entry \<longrightarrow>
         generateWithTools rt pid model messages tools idx ctx plugins options w =
           (Inl (JsError ''LLM provider not found or disabled''), w)"
    by (simp add: generateWithTools_def)
  from resolved new(1) dispatched refused executeTool_enabled_irrelevant show ?thesis
    by blast
qed

lemma search_index:
  "tr_nameToInstanceId (getToolsForActionIds (search_plugins l) [''a_id'', ''c_id'', ''b_id'']) =
     [(''search'', ''b_id'')]"
  by (simp add: getToolsForActionIds_def add_tools_of_def search_plugins_def sample_entry_def
      tools_plugin_def search_tool_def)

lemma search_run:
  "handler_calls (events (snd (generateWithTools sample_runtime ''p1'' ''m1'' 0
      [toTool (search_tool ''A''), toTool (search_tool ''B'')] [(''search'', ''b_id'')] sample_context
      (search_plugins (two_step_llm search_use)) None hello_world)))
   = [(''b_id'', ''search'', JObj [(''q'', JStr ''tea'')])]"
  by (simp add: generateWithTools_def search_plugins_def sample_entry_def llm_plugin_def tools_plugin_def
      two_step_llm_def scripted_llm_def new_array_def MAX_TOOL_LOOP_ITERATIONS_def eval_nat_numeral
      call_generate_def Let_def emit_def hello_world_def empty_world_def tool_request_def final_answer_def
      no_tool_uses_def uses_of_def run_tool_use_def date_now_def tool_outcome_def executeTool_def
      call_handler_def search_tool_def search_use_def array_push_def with_tools_def
      generate_calls_def generate_call_def handler_calls_def handler_call_def)

theorem disabled_instances_not_resolved_witness:
  "jsmap_get (tr_nameToInstanceId
       (getToolsForActionIds (search_plugins (two_step_llm search_use)) [''a_id'', ''c_id'', ''b_id'']))
     ''search'' = Some ''b_id''
   \<and> (\<exists>entry. jsmap_get (search_plugins (two_step_llm search_use)) ''b_id'' = Some entry
          \<and> ie_enabled entry \<and> hasTools (ie_plugin entry))
   \<and> handler_calls (events (snd (generateWithTools sample_runtime ''p1'' ''m1'' 0
        [toTool (search_tool ''A''), toTool (search_tool ''B'')]
        (tr_nameToInstanceId
          (getToolsForActionIds (search_plugins (two_step_llm search_use)) [''a_id'', ''c_id'', ''b_id'']))
        sample_context (search_plugins (two_step_llm search_use)) None hello_world))) =
      [(''b_id'', ''search'', JObj [(''q'', JStr ''tea'')])]
   \<and> jsmap_get (search_plugins (two_step_llm search_use)) ''c_id'' =
        Some (sample_entry ''c_id'' False
               (tools_plugin 2 \<lparr>getTools = [search_tool ''C''], requestApproval = None\<rparr>))
   \<and> generateWithTools sample_runtime ''c_id'' ''m1'' 0 [] [] sample_context
        (search_plugins (two_step_llm search_use)) None hello_world =
      (Inl (JsError ''LLM provider not found or disabled''), hello_world)
   \<and> executeTool ''b_id'' search_use sample_context
        (jsmap_set (search_plugins (two_step_llm search_use)) ''b_id''
          ((sample_entry ''b_id'' True
             (tools_plugin 1 \<lparr>getTools = [search_tool ''B''], requestApproval = None\<rparr>))
           \<lparr>ie_enabled := False\<rparr>)) hello_world =
      executeTool ''b_id'' search_use sample_context (search_plugins (two_step_llm search_use)) hello_world"
proof -
  let ?plugins = "search_plugins (two_step_llm search_use)"
  let ?ids = "[''a_id'', ''c_id'', ''b_id'']"
  note inst = disabled_instances_not_resolved [where plugins = "?plugins" and ids = "?ids"
      and rt = sample_runtime and pid = "''p1''" and model = "''m1''" and messages = 0
      and tools = "[toTool (search_tool ''A''), toTool (search_tool ''B'')]" and ctx = sample_context
      and options = None and w = hello_world]
  have idx: "jsmap_get (tr_nameToInstanceId (getToolsForActionIds ?plugins ?ids)) ''search'' = Some ''b_id''"
    by (simp add: search_index)
  from inst [where i = "''b_id''"] idx
  have enabled: "\<exists>entry. jsmap_get ?plugins ''b_id'' = Some entry \<and> ie_enabled entry
      \<and> hasTools (ie_plugin entry)"
    by blast
  have run: "handler_calls (events (snd (generateWithTools sample_runtime ''p1'' ''m1'' 0
        [toTool (search_tool ''A''), toTool (search_tool ''B'')]
        (tr_nameToInstanceId (getToolsForActionIds ?plugins ?ids))
        sample_context ?plugins None hello_world))) =
      [(''b_id'', ''search'', JObj [(''q'', JStr ''tea'')])]"
    by (simp add: search_index search_run)
  have c: "jsmap_get ?plugins ''c_id'' =
        Some (sample_entry ''c_id'' False
               (tools_plugin 2 \<lparr>getTools = [search_tool ''C''], requestApproval = None\<rparr>))
      \<and> \<not> ie_enabled (sample_entry ''c_id'' False
               (tools_plugin 2 \<lparr>getTools = [search_tool ''C''], requestApproval = None\<rparr>))"
    by (simp add: search_plugins_def sample_entry_def)
  from disabled_instances_not_resolved [where plugins = "?plugins" and rt = sample_runtime
      and pid = "''c_id''" and model = "''m1''" and messages = 0 and idx = "[]" and tools = "[]"
      and ctx = sample_context and options = None and w = hello_world] c
  have refused: "generateWithTools sample_runtime ''c_id'' ''m1'' 0 [] [] sample_context
        ?plugins None hello_world =
      (Inl (JsError ''LLM provider not found or disabled''), hello_world)"
    by blast
  have b: "jsmap_get ?plugins ''b_id'' = Some (sample_entry ''b_id'' True
             (tools_plugin 1 \<lparr>getTools = [search_tool ''B''], requestApproval = None\<rparr>))"
    by (simp add: search_plugins_def)
  from inst [where i = "''b_id''" and u = search_use] b
  have same: "executeTool ''b_id'' search_use sample_context
        (jsmap_set ?plugins ''b_id''
          ((sample_entry ''b_id'' True
             (tools_plugin 1 \<lparr>getTools = [search_tool ''B''], requestApproval = None\<rparr>))
           \<lparr>ie_enabled := False\<rparr>)) hello_world =
      executeTool ''b_id'' search_use sample_context ?plugins hello_world"
    by blast
  from idx enabled run c refused same show ?thesis by blast
qed

section \<open>Properties of \<open>generateWithProvider\<close>\<close>

lemma jsmap_set_fresh: "k \<notin> fst ` set m \<Longrightarrow> jsmap_set m k v = m @ [(k, v)]"
  by (induction m) auto

lemma jsmap_copy:
  "distinct (map fst (m @ xs)) \<Longrightarrow> fold (\<lambda>(name, iid) m. jsmap_set m name iid) xs m = m @ xs"
proof (induction xs arbitrary: m)
  case Nil
  show ?case by simp
next
  case (Cons x xs)
  obtain k v where x: "x = (k, v)" by (cases x)
  from Cons.prems x have fresh: "k \<notin> fst ` set m" by auto
  from Cons.prems x have "distinct (map fst ((m @ [(k, v)]) @ xs))" by simp
  from Cons.IH [OF this] show ?case using x fresh by (simp add: jsmap_set_fresh)
qed

lemma jsmap_set_keys: "fst ` set (jsmap_set m k v) = insert k (fst ` set m)"
proof (induction m)
  case Nil
  show ?case by simp
next
  case (Cons x m)
  obtain k' v' where x: "x = (k', v')" by (cases x)
  show ?case
  proof (cases "k' = k")
    case True
    with x show ?thesis by simp
  next
    case False
    with x Cons.IH show ?thesis by (simp add: insert_commute)
  qed
qed

lemma jsmap_set_distinct: "distinct (map fst m) \<Longrightarrow> distinct (map fst (jsmap_set m k v))"
proof (induction m)
  case Nil
  show ?case by simp
next
  case (Cons x m)
  obtain k' v' where x: "x = (k', v')" by (cases x)
  show ?case
  proof (cases "k' = k")
    case True
    with x Cons.prems show ?thesis by simp
  next
    case False
    with x Cons show ?thesis by (simp add: jsmap_set_keys)
  qed
qed

lemma fold_jsmap_set_distinct:
  "distinct (map fst m) \<Longrightarrow> distinct (map fst (fold (\<lambda>t m. jsmap_set m (f t) v) ts m))"
  by (induction ts arbitrary: m) (simp_all add: jsmap_set_distinct)

lemma fold_add_tools_of_distinct:
  "distinct (map fst (tr_nameToInstanceId acc)) \<Longrightarrow>
   distinct (map fst (tr_nameToInstanceId (fold (add_tools_of plugins) ids acc)))"
proof (induction ids arbitrary: acc)
  case Nil
  then show ?case by simp
next
  case (Cons iid ids)
  have "distinct (map fst (tr_nameToInstanceId (add_tools_of plugins iid acc)))"
    using Cons.prems by (simp add: add_tools_of_eq [of plugins iid acc] fold_jsmap_set_distinct)
  from Cons.IH [OF this] show ?case by simp
qed

lemma getToolsForActionIds_distinct:
  "distinct (map fst (tr_nameToInstanceId (getToolsForActionIds plugins ids)))"
  unfolding getToolsForActionIds_def by (rule fold_add_tools_of_distinct) simp

lemma getToolsForActionIds_copy:
  "fold (\<lambda>(name, iid) m. jsmap_set m name iid) (tr_nameToInstanceId (getToolsForActionIds plugins ids)) [] =
     tr_nameToInstanceId (getToolsForActionIds plugins ids)"
  using jsmap_copy [of "[]" "tr_nameToInstanceId (getToolsForActionIds plugins ids)"]
    getToolsForActionIds_distinct [of plugins ids] by simp

lemma no_enabled_tools:
  "getAllEnabledPluginWithToolIds plugins = [] \<Longrightarrow>
   tr_tools (getToolsForActionIds plugins (getAllEnabledPluginWithToolIds plugins)) = []"
  by (simp add: getToolsForActionIds_def)

lemma generateWithProvider_no_tools:
  assumes "jsmap_get plugins pid = Some entry" and "getLLM (ie_plugin entry) = Some l"
    and "ie_enabled entry"
    and "options = None \<or> (\<exists>opt. options = Some opt \<and> no_length (po_tools opt)
           \<and> po_toolNameToInstanceId opt = None)"
  shows "generateWithProvider rt plugins pid model messages options w =
     (let built = getToolsForActionIds plugins (getAllEnabledPluginWithToolIds plugins);
          tools0 = (case options of None \<Rightarrow> None | Some opt \<Rightarrow> po_tools opt);
          genOptions =
            (case options of
               None \<Rightarrow> None
             | Some opt \<Rightarrow> Some \<lparr>go_temperature = po_temperature opt, go_maxTokens = po_maxTokens opt\<rparr>)
      in if tr_tools built = []
         then call_generate pid l model messages (with_tools genOptions tools0) w
         else (case (case options of None \<Rightarrow> None | Some opt \<Rightarrow> po_actionContext opt) of
                 Some context \<Rightarrow>
                   provider_result
                     (generateWithTools rt pid model messages (tr_tools built)
                        (tr_nameToInstanceId built) context plugins genOptions w)
               | None \<Rightarrow>
                   provider_result
                     (generateWithTools rt pid model messages (tr_tools built)
                        (tr_nameToInstanceId built) (web_context (now rt (events w))) plugins
                        genOptions (emit EvNow w))))"
proof -
  let ?built = "getToolsForActionIds plugins (getAllEnabledPluginWithToolIds plugins)"
  have ids: "tr_tools ?built \<noteq> [] \<Longrightarrow> getAllEnabledPluginWithToolIds plugins \<noteq> []"
    using no_enabled_tools by blast
  show ?thesis
  proof (cases options)
    case None
    show ?thesis
    proof (cases "tr_tools ?built = []")
      case True
      with assms(1-3) None show ?thesis
        by (simp add: generateWithProvider_def Let_def no_length_def)
    next
      case False
      with assms(1-3) None show ?thesis
        by (simp add: generateWithProvider_def Let_def no_length_def date_now_def
            getToolsForActionIds_copy provider_result_def)
    qed
  next
    case (Some opt)
    with assms(4) have opt: "no_length (po_tools opt)" "po_toolNameToInstanceId opt = None" by auto
    from opt(1) have tools: "po_tools opt = None \<or> po_tools opt = Some []"
      by (simp add: no_length_def split: option.splits)
    show ?thesis
    proof (cases "po_actionContext opt")
      case None
      show ?thesis
      proof (cases "tr_tools ?built = []")
        case True
        with assms(1-3) Some opt None tools show ?thesis
          by (auto simp: generateWithProvider_def Let_def)
      next
        case False
        with assms(1-3) Some opt None tools show ?thesis
          by (auto simp: generateWithProvider_def Let_def no_length_def date_now_def
              getToolsForActionIds_copy provider_result_def)
      qed
    next
      case ctx: (Some c)
      show ?thesis
      proof (cases "tr_tools ?built = []")
        case True
        with assms(1-3) Some opt ctx tools show ?thesis
          by (auto simp: generateWithProvider_def Let_def no_length_def)
      next
        case False
        with assms(1-3) Some opt ctx ids tools show ?thesis
          by (auto simp: generateWithProvider_def Let_def provider_result_def no_length_def)
      qed
    qed
  qed
qed


text \<open>
  Claim C8, amended. \<open>generateWithProvider\<close> is not a path without tools. When the
  provider resolves and the caller supplies neither tools nor a reverse index, the function
  resolves the tools of all enabled instances that have the tooling capability. If there is
  none, it makes one plain call of \<open>generate\<close> with the caller's options, without tool
  schemas, and returns its outcome; no handler runs. If there is at least one, it runs
  \<open>generateWithTools\<close> with all of them and their reverse index, with the caller's
  context or, when the caller gave none, with the web context built after reading the
  clock, and returns the response of that run.
\<close>

theorem generateWithProvider_falls_back_to_all_tools:
  assumes "jsmap_get plugins pid = Some entry" and "getLLM (ie_plugin entry) = Some l"
    and "ie_enabled entry"
    and "options = None \<or> (\<exists>opt. options = Some opt \<and> no_length (po_tools opt)
           \<and> po_toolNameToInstanceId opt = None)"
  shows "(tr_tools (getToolsForActionIds plugins (getAllEnabledPluginWithToolIds plugins)) = [] \<longrightarrow>
           (\<exists>opts. no_length (lgo_tools opts)
              \<and> generateWithProvider rt plugins pid model messages options w =
                  (generate l (events w) model (arrays w messages) opts,
                   w\<lparr>events := events w @
                       [EvGenerate pid model (arrays w messages) opts
                          (generate l (events w) model (arrays w messages) opts)]\<rparr>)))
       \<and> (tr_tools (getToolsForActionIds plugins (getAllEnabledPluginWithToolIds plugins)) \<noteq> [] \<longrightarrow>
           (\<exists>context genOptions w0. (w0 = w \<or> w0 = emit EvNow w)
              \<and> generateWithProvider rt plugins pid model messages options w =
                  provider_result
                    (generateWithTools rt pid model messages
                       (tr_tools (getToolsForActionIds plugins (getAllEnabledPluginWithToolIds plugins)))
                       (tr_nameToInstanceId
                          (getToolsForActionIds plugins (getAllEnabledPluginWithToolIds plugins)))
                       context plugins genOptions w0)))"
proof (intro conjI impI)
  let ?built = "getToolsForActionIds plugins (getAllEnabledPluginWithToolIds plugins)"
  let ?tools0 = "case options of None \<Rightarrow> None | Some opt \<Rightarrow> po_tools opt"
  let ?genOptions = "case options of
               None \<Rightarrow> None
             | Some opt \<Rightarrow> Some \<lparr>go_temperature = po_temperature opt, go_maxTokens = po_maxTokens opt\<rparr>"
  assume none: "tr_tools ?built = []"
  have nl: "no_length (lgo_tools (with_tools ?genOptions ?tools0))"
    using assms(4) by (auto simp: with_tools_def no_length_def)
  have "generateWithProvider rt plugins pid model messages options w =
      call_generate pid l model messages (with_tools ?genOptions ?tools0) w"
    unfolding generateWithProvider_no_tools [OF assms] Let_def using none by simp
  then have "generateWithProvider rt plugins pid model messages options w =
      (generate l (events w) model (arrays w messages) (with_tools ?genOptions ?tools0),
       w\<lparr>events := events w @
           [EvGenerate pid model (arrays w messages) (with_tools ?genOptions ?tools0)
              (generate l (events w) model (arrays w messages) (with_tools ?genOptions ?tools0))]\<rparr>)"
    by (simp add: call_generate_def Let_def emit_def)
  with nl show "\<exists>opts. no_length (lgo_tools opts)
              \<and> generateWithProvider rt plugins pid model messages options w =
                  (generate l (events w) model (arrays w messages) opts,
                   w\<lparr>events := events w @
                       [EvGenerate pid model (arrays w messages) opts
                          (generate l (events w) model (arrays w messages) opts)]\<rparr>)"
    by blast
next
  let ?built = "getToolsForActionIds plugins (getAllEnabledPluginWithToolIds plugins)"
  let ?genOptions = "case options of
               None \<Rightarrow> None
             | Some opt \<Rightarrow> Some \<lparr>go_temperature = po_temperature opt, go_maxTokens = po_maxTokens opt\<rparr>"
  assume some: "tr_tools ?built \<noteq> []"
  show "\<exists>context genOptions w0. (w0 = w \<or> w0 = emit EvNow w)
              \<and> generateWithProvider rt plugins pid model messages options w =
                  provider_result
                    (generateWithTools rt pid model messages (tr_tools ?built)
                       (tr_nameToInstanceId ?built) context plugins genOptions w0)"
  proof (cases "case options of None \<Rightarrow> None | Some opt \<Rightarrow> po_actionContext opt")
    case None
    then have "generateWithProvider rt plugins pid model messages options w =
        provider_result
          (generateWithTools rt pid model messages (tr_tools ?built) (tr_nameToInstanceId ?built)
             (web_context (now rt (events w))) plugins ?genOptions (emit EvNow w))"
      unfolding generateWithProvider_no_tools [OF assms] Let_def using some by simp
    then show ?thesis by blast
  next
    case (Some c)
    then have "generateWithProvider rt plugins pid model messages options w =
        provider_result
          (generateWithTools rt pid model messages (tr_tools ?built) (tr_nameToInstanceId ?built)
             c plugins ?genOptions w)"
      unfolding generateWithProvider_no_tools [OF assms] Let_def using some by simp
    then show ?thesis by blast
  qed
qed

lemma sample_plugins_all_tools:
  "getToolsForActionIds (sample_plugins l open_cap) (getAllEnabledPluginWithToolIds (sample_plugins l open_cap)) =
     \<lparr>tr_tools = [toTool echo_tool], tr_nameToInstanceId = [(''echo'', ''t1'')]\<rparr>"
  by (simp add: getToolsForActionIds_def getAllEnabledPluginWithToolIds_def sample_plugins_def
      sample_entry_def llm_plugin_def tools_plugin_def hasTools_def add_tools_of_def open_cap_def
      toTools_def echo_tool_def)

lemma sample_run:
  "handler_calls (events (snd (generateWithTools sample_runtime ''p1'' ''m1'' 0 [toTool echo_tool]
      [(''echo'', ''t1'')] ctx (sample_plugins (two_step_llm echo_use) open_cap) None (emit EvNow hello_world))))
     = [(''t1'', ''echo'', JObj [(''x'', JNum 1)])]
   \<and> map (\<lambda>c. lgo_tools (fst (snd c)))
       (generate_calls (events (snd (generateWithTools sample_runtime ''p1'' ''m1'' 0 [toTool echo_tool]
      [(''echo'', ''t1'')] ctx (sample_plugins (two_step_llm echo_use) open_cap) None (emit EvNow hello_world)))))
     = [Some [toTool echo_tool], Some [toTool echo_tool]]"
  by (simp add: generateWithTools_def sample_plugins_def sample_entry_def llm_plugin_def tools_plugin_def
      two_step_llm_def scripted_llm_def new_array_def MAX_TOOL_LOOP_ITERATIONS_def eval_nat_numeral
      call_generate_def Let_def emit_def hello_world_def empty_world_def tool_request_def final_answer_def
      no_tool_uses_def uses_of_def run_tool_use_def date_now_def tool_outcome_def executeTool_def
      call_handler_def open_cap_def echo_tool_def echo_use_def array_push_def with_tools_def
      generate_calls_def generate_call_def handler_calls_def handler_call_def)

lemma sample_provider:
  "jsmap_get (sample_plugins l cap) ''p1'' = Some (sample_entry ''p1'' True (llm_plugin 0 l))"
  by (simp add: sample_plugins_def)

lemma sample_provider_llm:
  "getLLM (ie_plugin (sample_entry ''p1'' True (llm_plugin 0 l))) = Some l"
  by (simp add: sample_entry_def llm_plugin_def)

lemma sample_provider_enabled: "ie_enabled (sample_entry ''p1'' True (llm_plugin 0 l))"
  by (simp add: sample_entry_def)

lemma snd_provider_result: "snd (provider_result x) = snd x"
  by (cases x) (simp add: provider_result_def split: sum.split)

text \<open>
  Claim C8, as stated, fails: called without options on a registry with one enabled tool
  provider, \<open>generateWithProvider\<close> attaches the tool schemas to both calls of
  \<open>generate\<close> and executes the handler the model asked for.
\<close>

theorem generateWithProvider_counterexample:
  "handler_calls (events (snd (generateWithProvider sample_runtime
       (sample_plugins (two_step_llm echo_use) open_cap) ''p1'' ''m1'' 0 None hello_world))) =
     [(''t1'', ''echo'', JObj [(''x'', JNum 1)])]
   \<and> map (\<lambda>c. lgo_tools (fst (snd c)))
       (generate_calls (events (snd (generateWithProvider sample_runtime
          (sample_plugins (two_step_llm echo_use) open_cap) ''p1'' ''m1'' 0 None hello_world)))) =
     [Some [toTool echo_tool], Some [toTool echo_tool]]"
proof -
  have "generateWithProvider sample_runtime (sample_plugins (two_step_llm echo_use) open_cap)
        ''p1'' ''m1'' 0 None hello_world =
      provider_result (generateWithTools sample_runtime ''p1'' ''m1'' 0 [toTool echo_tool]
        [(''echo'', ''t1'')] (web_context (now sample_runtime (events hello_world)))
        (sample_plugins (two_step_llm echo_use) open_cap) None (emit EvNow hello_world))"
    by (subst generateWithProvider_no_tools
          [OF sample_provider sample_provider_llm sample_provider_enabled])
      (simp_all add: sample_plugins_all_tools Let_def)
  then show ?thesis
    using sample_run by (simp add: snd_provider_result)
qed

lemma lonely_all_tools:
  "tr_tools (getToolsForActionIds (lonely_plugins l) (getAllEnabledPluginWithToolIds (lonely_plugins l))) = []"
  by (simp add: getToolsForActionIds_def getAllEnabledPluginWithToolIds_def lonely_plugins_def
      sample_entry_def llm_plugin_def hasTools_def)

theorem generateWithProvider_falls_back_to_all_tools_witness:
  "fst (generateWithProvider sample_runtime (lonely_plugins (two_step_llm echo_use)) ''p1'' ''m1'' 0
          None hello_world) = Inr (tool_request [echo_use])
   \<and> handler_calls (events (snd (generateWithProvider sample_runtime
          (lonely_plugins (two_step_llm echo_use)) ''p1'' ''m1'' 0 None hello_world))) = []
   \<and> map (\<lambda>c. no_length (lgo_tools (fst (snd c))))
         (generate_calls (events (snd (generateWithProvider sample_runtime
            (lonely_plugins (two_step_llm echo_use)) ''p1'' ''m1'' 0 None hello_world)))) = [True]
   \<and> (\<exists>context genOptions w0. (w0 = hello_world \<or> w0 = emit EvNow hello_world)
         \<and> generateWithProvider sample_runtime (sample_plugins (two_step_llm echo_use) open_cap)
              ''p1'' ''m1'' 0 None hello_world =
            provider_result
              (generateWithTools sample_runtime ''p1'' ''m1'' 0 [toTool echo_tool] [(''echo'', ''t1'')]
                 context (sample_plugins (two_step_llm echo_use) open_cap) genOptions w0))"
proof -
  let ?l = "two_step_llm echo_use"
  have p: "jsmap_get (lonely_plugins ?l) ''p1'' = Some (sample_entry ''p1'' True (llm_plugin 0 ?l))"
    by (simp add: lonely_plugins_def)
  have o: "(None :: provider_options option) = None \<or>
      (\<exists>opt. (None :: provider_options option) = Some opt \<and> no_length (po_tools opt)
           \<and> po_toolNameToInstanceId opt = None)"
    by simp
  from generateWithProvider_falls_back_to_all_tools [OF p sample_provider_llm sample_provider_enabled o,
      of sample_runtime "''m1''" 0 hello_world] lonely_all_tools [of ?l]
  obtain opts where plain: "no_length (lgo_tools opts)"
      "generateWithProvider sample_runtime (lonely_plugins ?l) ''p1'' ''m1'' 0 None hello_world =
         (generate ?l (events hello_world) ''m1'' (arrays hello_world 0) opts,
          hello_world\<lparr>events := events hello_world @
              [EvGenerate ''p1'' ''m1'' (arrays hello_world 0) opts
                 (generate ?l (events hello_world) ''m1'' (arrays hello_world 0) opts)]\<rparr>)"
    by blast
  have a: "fst (generateWithProvider sample_runtime (lonely_plugins ?l) ''p1'' ''m1'' 0 None hello_world) =
      Inr (tool_request [echo_use])"
    unfolding plain(2)
    by (simp add: two_step_llm_def scripted_llm_def hello_world_def empty_world_def
        generate_calls_def)
  have b: "handler_calls (events (snd (generateWithProvider sample_runtime (lonely_plugins ?l)
      ''p1'' ''m1'' 0 None hello_world))) = []"
    unfolding plain(2) by (simp add: hello_world_def empty_world_def)
  have c: "map (\<lambda>c. no_length (lgo_tools (fst (snd c))))
         (generate_calls (events (snd (generateWithProvider sample_runtime
            (lonely_plugins ?l) ''p1'' ''m1'' 0 None hello_world)))) = [True]"
    unfolding plain(2) using plain(1) by (simp add: hello_world_def empty_world_def)
  have t: "tr_tools (getToolsForActionIds (sample_plugins ?l open_cap)
      (getAllEnabledPluginWithToolIds (sample_plugins ?l open_cap))) \<noteq> []"
    by (simp add: sample_plugins_all_tools)
  from generateWithProvider_falls_back_to_all_tools [OF sample_provider sample_provider_llm
      sample_provider_enabled o, of ?l open_cap sample_runtime "''m1''" 0 hello_world] t
  have d: "\<exists>context genOptions w0. (w0 = hello_world \<or> w0 = emit EvNow hello_world)
         \<and> generateWithProvider sample_runtime (sample_plugins ?l open_cap)
              ''p1'' ''m1'' 0 None hello_world =
            provider_result
              (generateWithTools sample_runtime ''p1'' ''m1'' 0 [toTool echo_tool] [(''echo'', ''t1'')]
                 context (sample_plugins ?l open_cap) genOptions w0)"
    by (simp add: sample_plugins_all_tools)
  from a b c d show ?thesis by blast
qed

section \<open>Properties of the registry\<close>










section \<open>Properties of the connector handler\<close>

lemma chat_tools:
  "getToolsForActionIds (chat_plugins l) [''t1''] =
     \<lparr>tr_tools = [toTool echo_tool], tr_nameToInstanceId = [(''echo'', ''t1'')]\<rparr>"
  by (simp add: getToolsForActionIds_def chat_plugins_def sample_plugins_def d1_entry_def
      sample_entry_def tools_plugin_def add_tools_of_def open_cap_def toTools_def echo_tool_def)

lemma answering_generation:
  "generateWithTools sample_runtime ''p1'' ''m1'' a ts idx ctx (chat_plugins answering_llm) None w =
     (Inr \<lparr>response = final_answer ''hi'', toolUsages = []\<rparr>,
      w\<lparr>events := events w @
           [EvGenerate ''p1'' ''m1'' (arrays w a) (with_tools None (if length ts > 0 then Some ts else None))
              (Inr (final_answer ''hi''))],
        arrays := (arrays w)(next_array w := arrays w a), next_array := Suc (next_array w)\<rparr>)"
  by (simp add: generateWithTools_def chat_plugins_def sample_plugins_def sample_entry_def
      llm_plugin_def d1_entry_def answering_llm_def scripted_llm_def new_array_def
      MAX_TOOL_LOOP_ITERATIONS_def eval_nat_numeral call_generate_def Let_def emit_def
      final_answer_def no_tool_uses_def)

lemma failing_generation:
  "generateWithTools sample_runtime ''p1'' ''m1'' a ts idx ctx (chat_plugins failing_llm) None w =
     (Inl (JsError ''upstream''),
      w\<lparr>events := events w @
           [EvGenerate ''p1'' ''m1'' (arrays w a) (with_tools None (if length ts > 0 then Some ts else None))
              (Inl (JsError ''upstream''))],
        arrays := (arrays w)(next_array w := arrays w a), next_array := Suc (next_array w)\<rparr>)"
  by (simp add: generateWithTools_def chat_plugins_def sample_plugins_def sample_entry_def
      llm_plugin_def d1_entry_def failing_llm_def scripted_llm_def new_array_def
      MAX_TOOL_LOOP_ITERATIONS_def eval_nat_numeral call_generate_def Let_def emit_def)

text \<open>
  Claim C3 does not hold of the code: \<open>stopTyping\<close> is only called in the \<open>catch\<close>
  block. For a message to an enabled connector with \<open>sendTyping\<close>, bound to an assistant
  whose model answers at once, the handler completes normally and the interval timer it
  started is still running: among the timer and reply events there is no
  \<open>clearInterval\<close>. When the model throws instead, the timer is cleared before the error
  reply is sent.
\<close>

theorem typing_heartbeat_left_running:
  "fst (handleConnectorMessage sample_runtime sample_db d1_entry sample_message
          (chat_plugins answering_llm) (getToolsForActionIds (chat_plugins answering_llm))
          empty_world) = None
   \<and> timers (snd (handleConnectorMessage sample_runtime sample_db d1_entry sample_message
          (chat_plugins answering_llm) (getToolsForActionIds (chat_plugins answering_llm))
          empty_world)) = [0]
   \<and> filter typing_event (events (snd (handleConnectorMessage sample_runtime sample_db d1_entry
          sample_message (chat_plugins answering_llm)
          (getToolsForActionIds (chat_plugins answering_llm)) empty_world))) =
      [EvSetInterval 0,
       EvSendMessage 2 \<lparr>smo_channelId = ''c1'', smo_content = ''hi'', smo_replyTo = Some ''m1'',
                         smo_attachments = None\<rparr>]
   \<and> timers (snd (handleConnectorMessage sample_runtime sample_db d1_entry sample_message
          (chat_plugins failing_llm) (getToolsForActionIds (chat_plugins failing_llm))
          empty_world)) = []
   \<and> filter typing_event (events (snd (handleConnectorMessage sample_runtime sample_db d1_entry
          sample_message (chat_plugins failing_llm)
          (getToolsForActionIds (chat_plugins failing_llm)) empty_world))) =
      [EvSetInterval 0, EvClearInterval 0,
       EvSendMessage 2 \<lparr>smo_channelId = ''c1'', smo_content = ''Error: upstream'',
                         smo_replyTo = Some ''m1'', smo_attachments = None\<rparr>]"
  by (simp add: handleConnectorMessage_def bound_assistant_def answer_message_def
      finish_exchange_def d1_entry_def connector_plugin_def sample_connector_def
      sample_db_def chat_tools [unfolded d1_entry_def connector_plugin_def sample_connector_def]
      answering_generation [unfolded d1_entry_def connector_plugin_def sample_connector_def]
      failing_generation [unfolded d1_entry_def connector_plugin_def sample_connector_def]
      start_typing_def stopTyping_def send_failure_def sample_message_def
      empty_world_def emit_def Let_def new_array_def cacheKey_def cap_cached_def
      MAX_CACHED_MESSAGES_def user_content_def plain_message_def persist_exchange_def
      date_now_def content_of_def final_answer_def usage_images_def typing_event_def)






















end
